theory Spec2Isabelle
  imports Complex_Main "HOL-Library.Char_ord" "HOL-Library.List_Lexorder"
begin

section \<open>Numbers, randomness and time\<close>

text \<open>
  JavaScript numbers are modelled as the reals they approximate. \<open>Math.random()\<close> is an
  explicit source: a function from the index of the draw to the value drawn, together with
  a counter of the draws made so far. The counter is threaded through every function in
  the order in which the source evaluates its calls of \<open>Math.random()\<close>.
\<close>

type_synonym rand = "nat \<Rightarrow> real"

definition unit_interval :: "rand \<Rightarrow> bool" where
  "unit_interval g \<longleftrightarrow> (\<forall>i. 0 \<le> g i \<and> g i < 1)"

definition Math_random :: "rand \<Rightarrow> nat \<Rightarrow> real \<times> nat" where
  "Math_random g n = (g n, Suc n)"

text \<open>\<open>Math.round\<close>: the nearest integer, a tie going up.\<close>

definition Math_round :: "real \<Rightarrow> real" where
  "Math_round x = of_int \<lfloor>x + 1 / 2\<rfloor>"

text \<open>
  A \<open>Date\<close> is its time value: milliseconds since the epoch, UTC. The local time zone of
  the process is a fixed offset \<open>tz\<close> in minutes east of UTC (local = UTC + tz). This
  covers UTC and every zone without daylight-saving time. A zone whose offset changes is
  not modelled: on the day of a change \<open>Date.setHours\<close> follows the zone's rules, and the
  results below that speak of local time are stated for fixed offsets only.
\<close>

type_synonym Date = int

definition msPerHour :: int where
  "msPerHour = 3600000"

definition msPerDay :: int where
  "msPerDay = 86400000"

text \<open>\<open>d.setHours(h, 0, 0, 0)\<close>: the instant at \<open>h\<close>:00:00.000 local time on the local
  calendar day of \<open>d\<close>.\<close>

definition setHours :: "int \<Rightarrow> Date \<Rightarrow> int \<Rightarrow> Date" where
  "setHours tz d h =
     (let local = d + tz * 60000;
          day = local - local mod msPerDay
      in day + h * msPerHour - tz * 60000)"

definition getUTCHours :: "Date \<Rightarrow> int" where
  "getUTCHours d = (d mod msPerDay) div msPerHour"

section \<open>The curve model\<close>

text \<open>\<open>DataGenerationScheduler.calculateEnergyGeneration(hour, capacity)\<close>.\<close>

definition calculateEnergyGeneration :: "rand \<Rightarrow> real \<Rightarrow> real \<Rightarrow> nat \<Rightarrow> real \<times> nat" where
  "calculateEnergyGeneration g hour capacity n =
     (if hour \<ge> 22 \<or> hour < 6 then (0, n)
      else if hour \<ge> 6 \<and> hour < 12 then
        (let factor = (hour - 6) / 6;
             baseGeneration = capacity * 0.7 * factor;
             (r, n') = Math_random g n;
             variation = r * 0.2 - 0.1
         in (max 0 (baseGeneration * (1 + variation)), n'))
      else if hour \<ge> 12 \<and> hour < 14 then
        (let baseGeneration = capacity * 0.75;
             (r, n') = Math_random g n;
             variation = r * 0.15 - 0.075
         in (baseGeneration * (1 + variation), n'))
      else if hour \<ge> 14 \<and> hour < 20 then
        (let factor = 1 - (hour - 14) / 6;
             baseGeneration = capacity * 0.7 * factor;
             (r, n') = Math_random g n;
             variation = r * 0.2 - 0.1
         in (max 0 (baseGeneration * (1 + variation)), n'))
      else if hour \<ge> 20 \<and> hour < 22 then
        (let (r, n') = Math_random g n;
             baseGeneration = capacity * 0.1 * r
         in (max 0 baseGeneration, n'))
      else (0, n))"

section \<open>Records, units and the record store\<close>

text \<open>
  An energy record as the JavaScript object that is handed to \<open>insertMany\<close>. The fields the
  seeding script leaves out of its object literal are \<open>None\<close> there.
\<close>

record energy_record =
  serialNumber :: string
  solarUnitId :: "string option"
  timestamp :: Date
  energyGenerated :: real
  peakPower :: "real option"
  efficiency :: "real option"
  temperature :: "real option"

text \<open>A solar unit as the registry returns it; \<open>unit_capacity\<close> is \<open>None\<close> when the field is
  absent.\<close>

record solar_unit =
  unit_id :: string
  unit_serialNumber :: string
  unit_capacity :: "real option"
  unit_name :: string

datatype error = RegistryError string | StoreError string

text \<open>
  The record store is the list of its documents. What the store does wrong during one
  call of \<open>generateRecordsForUnit\<close> is an input: nothing, a rejected \<open>countDocuments\<close>, or
  an \<open>insertMany\<close> rejected after the first \<open>k\<close> documents of the batch were written
  (an ordered bulk insert stops at the first document that fails).
\<close>

datatype store_fault = NoFault | CountFails string | InsertFails nat string

type_synonym world = "energy_record list \<times> nat"

text \<open>\<open>EnergyGenerationRecord.countDocuments({serialNumber, timestamp: {$gte: date,
  $lt: date + 24h}})\<close>.\<close>

definition countDocuments :: "energy_record list \<Rightarrow> string \<Rightarrow> Date \<Rightarrow> nat" where
  "countDocuments docs sn date =
     length (filter (\<lambda>r. serialNumber r = sn \<and> date \<le> timestamp r
                           \<and> timestamp r < date + 24 * 60 * 60 * 1000) docs)"

section \<open>Generation for one unit and one day\<close>

text \<open>The body of the loop of \<open>generateRecordsForUnit\<close>: the record pushed for one hour.
  The draws are made in the order of the object literal: energy, efficiency (only when the
  energy is positive), temperature.\<close>

definition slotRecord ::
  "rand \<Rightarrow> int \<Rightarrow> solar_unit \<Rightarrow> real \<Rightarrow> Date \<Rightarrow> int \<Rightarrow> nat \<Rightarrow> energy_record \<times> nat" where
  "slotRecord g tz u capacity date hour n =
     (let ts = setHours tz date hour;
          (e, n1) = calculateEnergyGeneration g (of_int hour) capacity n;
          peak = (if e > 0 then e * 1.2 else 0);
          (eff, n2) = (if e > 0 then (let (r, k) = Math_random g n1 in (85 + r * 10, k))
                       else (0, n1));
          (temp, n3) = (let (r, k) = Math_random g n2 in (25 + r * 15, k))
      in (\<lparr>serialNumber = unit_serialNumber u,
           solarUnitId = Some (unit_id u),
           timestamp = ts,
           energyGenerated = e,
           peakPower = Some peak,
           efficiency = Some eff,
           temperature = Some temp\<rparr>, n3))"

text \<open>The loop \<open>for (let hour = 0; hour < 24; hour += 2)\<close> itself.\<close>

function recordsLoop ::
  "rand \<Rightarrow> int \<Rightarrow> solar_unit \<Rightarrow> real \<Rightarrow> Date \<Rightarrow> int \<Rightarrow> energy_record list \<Rightarrow> nat
     \<Rightarrow> energy_record list \<times> nat" where
  "recordsLoop g tz u capacity date hour records n =
     (if hour < 24 then
        (case slotRecord g tz u capacity date hour n of
           (record, n') \<Rightarrow>
             recordsLoop g tz u capacity date (hour + 2) (records @ [record]) n')
      else (records, n))"
  by pat_completeness auto
termination
  by (relation "measure (\<lambda>(g, tz, u, capacity, date, hour, records, n). nat (24 - hour))")
     auto

datatype outcome = Skipped | Generated nat

text \<open>\<open>unit.capacity || 5000\<close>: an absent capacity and a capacity of 0 are falsy.\<close>

definition capacityOf :: "solar_unit \<Rightarrow> real" where
  "capacityOf u = (case unit_capacity u of None \<Rightarrow> 5000
                   | Some c \<Rightarrow> if c = 0 then 5000 else c)"

text \<open>\<open>DataGenerationScheduler.generateRecordsForUnit(unit, date)\<close>. The batch is built
  before the store is asked, so the random draws are made on a skip as well.\<close>

definition generateRecordsForUnit ::
  "rand \<Rightarrow> int \<Rightarrow> store_fault \<Rightarrow> solar_unit \<Rightarrow> Date \<Rightarrow> world \<Rightarrow> (error + outcome) \<times> world" where
  "generateRecordsForUnit g tz flt u date w =
     (let capacity = capacityOf u;
          sn = unit_serialNumber u;
          (records, n') = recordsLoop g tz u capacity date 0 [] (snd w)
      in case flt of
           CountFails msg \<Rightarrow> (Inl (StoreError msg), (fst w, n'))
         | _ \<Rightarrow>
           (let existingCount = countDocuments (fst w) sn date
            in if existingCount > 0 then (Inr Skipped, (fst w, n'))
               else case flt of
                      InsertFails k msg \<Rightarrow> (Inl (StoreError msg), (fst w @ take k records, n'))
                    | _ \<Rightarrow> (Inr (Generated (length records)), (fst w @ records, n'))))"

section \<open>The scheduler's runs\<close>

text \<open>The \<open>for (const unit of solarUnits)\<close> loop, shared by both runs: the error of one
  unit is caught and logged, and the loop goes on. The store's faults are given per serial
  number and day.\<close>

fun unitsLoop ::
  "rand \<Rightarrow> int \<Rightarrow> (string \<Rightarrow> Date \<Rightarrow> store_fault) \<Rightarrow> solar_unit list \<Rightarrow> Date \<Rightarrow> world \<Rightarrow> world" where
  "unitsLoop g tz flt [] date w = w"
| "unitsLoop g tz flt (u # us) date w =
     unitsLoop g tz flt us date
       (snd (generateRecordsForUnit g tz (flt (unit_serialNumber u) date) u date w))"

text \<open>\<open>DataGenerationScheduler.generateDailyData()\<close>. \<open>registry\<close> is the outcome of the
  request for the active units, \<open>now\<close> the value of \<open>new Date()\<close>.\<close>

definition generateDailyData ::
  "rand \<Rightarrow> int \<Rightarrow> (string \<Rightarrow> Date \<Rightarrow> store_fault) \<Rightarrow> error + solar_unit list \<Rightarrow> Date \<Rightarrow> world
     \<Rightarrow> (error + unit) \<times> world" where
  "generateDailyData g tz flt registry now w =
     (case registry of
        Inl err \<Rightarrow> (Inl err, w)
      | Inr solarUnits \<Rightarrow>
          if length solarUnits = 0 then (Inr (), w)
          else (let today = setHours tz now 0
                in (Inr (), unitsLoop g tz flt solarUnits today w)))"

text \<open>
  A value of a JSON request body. The argument of \<open>generateHistoricalData\<close> is whatever the
  handler passes, and the loop condition \<open>i < days\<close> converts it to a number: \<open>ToNumber\<close>,
  with \<open>None\<close> for NaN. The conversion of strings, arrays and objects is the parameter
  \<open>coerce\<close>.
\<close>

datatype json_value =
  JNull | JBool bool | JNumber real | JString string
  | JArray "json_value list" | JObject "(string \<times> json_value) list"

definition truthy :: "json_value \<Rightarrow> bool" where
  "truthy v = (case v of
                 JNull \<Rightarrow> False
               | JBool b \<Rightarrow> b
               | JNumber x \<Rightarrow> x \<noteq> 0
               | JString s \<Rightarrow> s \<noteq> []
               | JArray xs \<Rightarrow> True
               | JObject kvs \<Rightarrow> True)"

definition ToNumber :: "(json_value \<Rightarrow> real option) \<Rightarrow> json_value \<Rightarrow> real option" where
  "ToNumber coerce v = (case v of
                          JNull \<Rightarrow> Some 0
                        | JBool b \<Rightarrow> Some (if b then 1 else 0)
                        | JNumber x \<Rightarrow> Some x
                        | JString s \<Rightarrow> coerce v
                        | JArray xs \<Rightarrow> coerce v
                        | JObject kvs \<Rightarrow> coerce v)"

text \<open>The \<open>for (let i = 0; i < days; i++)\<close> loop of \<open>generateHistoricalData\<close>; \<open>days\<close> is
  the number the condition compares with (a comparison with NaN is false), \<open>clock i\<close> the
  value of \<open>new Date()\<close> in iteration \<open>i\<close>.\<close>

function daysLoop ::
  "rand \<Rightarrow> int \<Rightarrow> (string \<Rightarrow> Date \<Rightarrow> store_fault) \<Rightarrow> solar_unit list \<Rightarrow> (nat \<Rightarrow> Date)
     \<Rightarrow> real option \<Rightarrow> nat \<Rightarrow> world \<Rightarrow> world" where
  "daysLoop g tz flt solarUnits clock days i w =
     (if (case days of None \<Rightarrow> False | Some d \<Rightarrow> of_nat i < d) then
        (let date = setHours tz (clock i - int i * msPerDay) 0
         in daysLoop g tz flt solarUnits clock days (Suc i)
              (unitsLoop g tz flt solarUnits date w))
      else w)"
  by pat_completeness auto
termination
proof (relation "measure (\<lambda>(g, tz, flt, solarUnits, clock, days, i, w).
                   nat \<lceil>case days of None \<Rightarrow> 0 | Some d \<Rightarrow> d\<rceil> - i)")
  show "wf (measure (\<lambda>(g :: rand, tz :: int, flt :: string \<Rightarrow> Date \<Rightarrow> store_fault,
                       solarUnits :: solar_unit list, clock :: nat \<Rightarrow> Date,
                       days :: real option, i :: nat, w :: world).
                   nat \<lceil>case days of None \<Rightarrow> 0 | Some d \<Rightarrow> d\<rceil> - i))"
    by simp
next
  fix g :: rand and tz :: int and flt :: "string \<Rightarrow> Date \<Rightarrow> store_fault"
    and solarUnits :: "solar_unit list" and clock :: "nat \<Rightarrow> Date" and days :: "real option"
    and i :: nat and w :: world and x :: Date
  assume h: "case days of None \<Rightarrow> False | Some d \<Rightarrow> real i < d"
  then obtain d where d: "days = Some d" "real i < d"
    by (cases days) simp_all
  have "int i < \<lceil>d\<rceil>" using d(2) by (simp add: less_ceiling_iff)
  then have "i < nat \<lceil>d\<rceil>" by linarith
  then show "((g, tz, flt, solarUnits, clock, days, Suc i, unitsLoop g tz flt solarUnits x w),
              (g, tz, flt, solarUnits, clock, days, i, w))
               \<in> measure (\<lambda>(g, tz, flt, solarUnits, clock, days, i, w).
                   nat \<lceil>case days of None \<Rightarrow> 0 | Some d \<Rightarrow> d\<rceil> - i)"
    using d(1) by simp
qed

text \<open>\<open>DataGenerationScheduler.generateHistoricalData(days)\<close>.\<close>

definition generateHistoricalData ::
  "rand \<Rightarrow> int \<Rightarrow> (string \<Rightarrow> Date \<Rightarrow> store_fault) \<Rightarrow> error + solar_unit list \<Rightarrow> (nat \<Rightarrow> Date)
     \<Rightarrow> (json_value \<Rightarrow> real option) \<Rightarrow> json_value \<Rightarrow> world \<Rightarrow> (error + unit) \<times> world" where
  "generateHistoricalData g tz flt registry clock coerce days w =
     (case registry of
        Inl err \<Rightarrow> (Inl err, w)
      | Inr solarUnits \<Rightarrow>
          (Inr (), daysLoop g tz flt solarUnits clock (ToNumber coerce days) 0 w))"

section \<open>The administrative trigger\<close>

text \<open>The response: its status, the field \<open>success\<close>, the value of \<open>days\<close> put into the message
  of a success, and the error message of a failure.\<close>

record response =
  status :: nat
  success :: bool
  days_reported :: "json_value option"
  error_message :: "string option"

definition error_text :: "error \<Rightarrow> string" where
  "error_text e = (case e of RegistryError m \<Rightarrow> m | StoreError m \<Rightarrow> m)"

text \<open>\<open>const days = req.body?.days || 7\<close>: the field of the JSON body is \<open>None\<close> when the body
  has no \<open>days\<close>.\<close>

definition requested_days :: "json_value option \<Rightarrow> json_value" where
  "requested_days body_days =
     (case body_days of None \<Rightarrow> JNumber 7 | Some v \<Rightarrow> if truthy v then v else JNumber 7)"

text \<open>The handler of \<open>POST /generate-historical-data\<close>.\<close>

definition generate_historical_data_handler ::
  "rand \<Rightarrow> int \<Rightarrow> (string \<Rightarrow> Date \<Rightarrow> store_fault) \<Rightarrow> error + solar_unit list \<Rightarrow> (nat \<Rightarrow> Date)
     \<Rightarrow> (json_value \<Rightarrow> real option) \<Rightarrow> json_value option \<Rightarrow> world \<Rightarrow> response \<times> world" where
  "generate_historical_data_handler g tz flt registry clock coerce body_days w =
     (let days = requested_days body_days
      in case generateHistoricalData g tz flt registry clock coerce days w of
           (Inr _, w') \<Rightarrow>
             (\<lparr>status = 200, success = True, days_reported = Some days,
               error_message = None\<rparr>, w')
         | (Inl err, w') \<Rightarrow>
             (\<lparr>status = 500, success = False, days_reported = None,
               error_message = Some (error_text err)\<rparr>, w'))"

section \<open>Calendar dates in UTC\<close>

text \<open>
  \<open>toISOString().split("T")[0]\<close> and \<open>getUTCMonth()\<close> need the proleptic Gregorian date of a
  day number (days since 1970-01-01). \<open>civil_from_days\<close> computes year, month (1 to 12) and
  day of the month, counting in 400-year eras that start on 1 March.
\<close>

definition civil_from_days :: "int \<Rightarrow> int \<times> int \<times> int" where
  "civil_from_days z0 =
     (let z = z0 + 719468;
          era = z div 146097;
          doe = z - era * 146097;
          yoe = (doe - doe div 1460 + doe div 36524 - doe div 146096) div 365;
          y = yoe + era * 400;
          doy = doe - (365 * yoe + yoe div 4 - yoe div 100);
          mp = (5 * doy + 2) div 153;
          d = doy - (153 * mp + 2) div 5 + 1;
          m = (if mp < 10 then mp + 3 else mp - 9)
      in (if m \<le> 2 then y + 1 else y, m, d))"

definition getUTCMonth :: "Date \<Rightarrow> int" where
  "getUTCMonth t = (case civil_from_days (t div msPerDay) of (y, m, d) \<Rightarrow> m - 1)"

definition digit_char :: "int \<Rightarrow> char" where
  "digit_char d = ''0123456789'' ! nat (d mod 10)"

definition two_digits :: "int \<Rightarrow> string" where
  "two_digits k = [digit_char (k div 10), digit_char k]"

definition year_digits :: "int \<Rightarrow> string" where
  "year_digits y =
     (if 0 \<le> y \<and> y \<le> 9999 then
        [digit_char (y div 1000), digit_char (y div 100), digit_char (y div 10), digit_char y]
      else (if y < 0 then ''-'' else ''+'') @
        [digit_char (\<bar>y\<bar> div 100000), digit_char (\<bar>y\<bar> div 10000), digit_char (\<bar>y\<bar> div 1000),
         digit_char (\<bar>y\<bar> div 100), digit_char (\<bar>y\<bar> div 10), digit_char \<bar>y\<bar>])"

text \<open>The date half of \<open>toISOString()\<close>: \<open>YYYY-MM-DD\<close> in UTC.\<close>

definition toISODateString :: "Date \<Rightarrow> string" where
  "toISODateString t =
     (case civil_from_days (t div msPerDay) of
        (y, m, d) \<Rightarrow> year_digits y @ ''-'' @ two_digits m @ ''-'' @ two_digits d)"

section \<open>The anomaly catalog\<close>

text \<open>
  One entry of \<open>ANOMALY_PATTERNS\<close>. A property the object literal does not have is \<open>None\<close>
  (\<open>False\<close> for the flag \<open>nightOnly\<close>). \<open>pattern_apply\<close> is the entry's \<open>apply\<close>; it takes the
  random source because two of the entries draw from it.
\<close>

record anomaly_pattern =
  pattern_type :: string
  pattern_date :: "string option"
  startHour :: "int option"
  endHour :: "int option"
  dateRange :: "(string \<times> string) option"
  nightOnly :: bool
  pattern_apply :: "rand \<Rightarrow> energy_record \<Rightarrow> nat \<Rightarrow> energy_record \<times> nat"

definition ZERO_GENERATION :: anomaly_pattern where
  "ZERO_GENERATION =
     \<lparr>pattern_type = ''ZERO_GENERATION'', pattern_date = Some ''2025-12-01'',
      startHour = Some 10, endHour = Some 14, dateRange = None, nightOnly = False,
      pattern_apply = (\<lambda>g record n. (record\<lparr>energyGenerated := 0\<rparr>, n))\<rparr>"

definition SUDDEN_DROP :: anomaly_pattern where
  "SUDDEN_DROP =
     \<lparr>pattern_type = ''SUDDEN_DROP'', pattern_date = Some ''2025-12-05'',
      startHour = Some 9, endHour = Some 15, dateRange = None, nightOnly = False,
      pattern_apply = (\<lambda>g record n.
        (record\<lparr>energyGenerated := Math_round (energyGenerated record * 0.3)\<rparr>, n))\<rparr>"

definition CAPACITY_FACTOR :: anomaly_pattern where
  "CAPACITY_FACTOR =
     \<lparr>pattern_type = ''CAPACITY_FACTOR'', pattern_date = None,
      startHour = None, endHour = None, dateRange = Some (''2025-12-10'', ''2025-12-16''),
      nightOnly = False,
      pattern_apply = (\<lambda>g record n.
        (record\<lparr>energyGenerated := Math_round (energyGenerated record * 0.4)\<rparr>, n))\<rparr>"

definition IRREGULAR_PATTERN :: anomaly_pattern where
  "IRREGULAR_PATTERN =
     \<lparr>pattern_type = ''IRREGULAR_PATTERN'', pattern_date = Some ''2025-12-08'',
      startHour = None, endHour = None, dateRange = None, nightOnly = False,
      pattern_apply = (\<lambda>g record n.
        (let (r, n') = Math_random g n;
             spike = (if r > 0.5 then 2.5 else 0.4)
         in (record\<lparr>energyGenerated := Math_round (energyGenerated record * spike)\<rparr>, n')))\<rparr>"

definition IRREGULAR_PATTERN_NIGHT :: anomaly_pattern where
  "IRREGULAR_PATTERN_NIGHT =
     \<lparr>pattern_type = ''IRREGULAR_PATTERN_NIGHT'', pattern_date = Some ''2025-12-03'',
      startHour = None, endHour = None, dateRange = None, nightOnly = True,
      pattern_apply = (\<lambda>g record n.
        (let (r, n') = Math_random g n
         in (record\<lparr>energyGenerated := 50 + r * 100\<rparr>, n')))\<rparr>"

definition ANOMALY_PATTERNS :: "anomaly_pattern list" where
  "ANOMALY_PATTERNS =
     [ZERO_GENERATION, SUDDEN_DROP, CAPACITY_FACTOR, IRREGULAR_PATTERN, IRREGULAR_PATTERN_NIGHT]"

text \<open>The value of \<open>shouldApplyPattern\<close> at the end of one iteration of the scan in
  \<open>seedWithAnomalies\<close>. Strings compare as JavaScript compares them, code unit by code
  unit.\<close>

definition shouldApplyPattern :: "anomaly_pattern \<Rightarrow> string \<Rightarrow> int \<Rightarrow> bool" where
  "shouldApplyPattern pattern dateString hour =
     (let byDate =
            (case pattern_date pattern of
               None \<Rightarrow> False
             | Some d \<Rightarrow>
                 if d \<noteq> [] \<and> dateString = d then
                   (case (startHour pattern, endHour pattern) of
                      (Some s, Some e) \<Rightarrow> hour \<ge> s \<and> hour < e
                    | _ \<Rightarrow> if nightOnly pattern then hour < 6 \<or> hour > 20 else True)
                 else False)
      in case dateRange pattern of
           None \<Rightarrow> byDate
         | Some (start, end) \<Rightarrow>
             if dateString \<ge> start \<and> dateString \<le> end then True else byDate)"

text \<open>The scan \<open>for (const pattern of ANOMALY_PATTERNS) { ... break; }\<close>: the record after
  the scan, the flag \<open>isAnomaly\<close>, and the draw counter.\<close>

fun applyAnomalyPatterns ::
  "rand \<Rightarrow> anomaly_pattern list \<Rightarrow> string \<Rightarrow> int \<Rightarrow> energy_record \<Rightarrow> nat
     \<Rightarrow> (energy_record \<times> bool) \<times> nat" where
  "applyAnomalyPatterns g [] dateString hour record n = ((record, False), n)"
| "applyAnomalyPatterns g (pattern # rest) dateString hour record n =
     (if shouldApplyPattern pattern dateString hour then
        (case pattern_apply pattern g record n of (record', n') \<Rightarrow> ((record', True), n'))
      else applyAnomalyPatterns g rest dateString hour record n)"

text \<open>One iteration of the \<open>while (currentDate <= endDate)\<close> loop of \<open>seedWithAnomalies\<close>,
  up to \<open>records.push(record)\<close>.\<close>

definition seedSlot :: "rand \<Rightarrow> string \<Rightarrow> Date \<Rightarrow> nat \<Rightarrow> (energy_record \<times> bool) \<times> nat" where
  "seedSlot g sn currentDate n =
     (let hour = getUTCHours currentDate;
          month = getUTCMonth currentDate;
          dateString = toISODateString currentDate;
          baseEnergy = (if month \<ge> 5 \<and> month \<le> 7 then 300
                        else if month \<ge> 2 \<and> month \<le> 4 then 250
                        else if month \<ge> 8 \<and> month \<le> 10 then 200
                        else (150 :: real));
          timeMultiplier = (if hour \<ge> 6 \<and> hour \<le> 18 then
                              (if hour \<ge> 10 \<and> hour \<le> 14 then 1.5 else 1.2)
                            else (0 :: real));
          (r, n1) = Math_random g n;
          variation = 0.8 + r * 0.4;
          energy = Math_round (baseEnergy * timeMultiplier * variation);
          record = \<lparr>serialNumber = sn, solarUnitId = None, timestamp = currentDate,
                    energyGenerated = energy, peakPower = None, efficiency = None,
                    temperature = None\<rparr>
      in applyAnomalyPatterns g ANOMALY_PATTERNS dateString hour record n1)"

text \<open>The record of one iteration before the scan of the catalog: the base record built
  from the season, the hour and one draw.\<close>

definition seedBaseRecord :: "rand \<Rightarrow> string \<Rightarrow> Date \<Rightarrow> nat \<Rightarrow> energy_record \<times> nat" where
  "seedBaseRecord g sn currentDate n =
     (let hour = getUTCHours currentDate;
          month = getUTCMonth currentDate;
          baseEnergy = (if month \<ge> 5 \<and> month \<le> 7 then 300
                        else if month \<ge> 2 \<and> month \<le> 4 then 250
                        else if month \<ge> 8 \<and> month \<le> 10 then 200
                        else (150 :: real));
          timeMultiplier = (if hour \<ge> 6 \<and> hour \<le> 18 then
                              (if hour \<ge> 10 \<and> hour \<le> 14 then 1.5 else 1.2)
                            else (0 :: real));
          (r, n1) = Math_random g n;
          variation = 0.8 + r * 0.4;
          energy = Math_round (baseEnergy * timeMultiplier * variation)
      in (\<lparr>serialNumber = sn, solarUnitId = None, timestamp = currentDate,
           energyGenerated = energy, peakPower = None, efficiency = None,
           temperature = None\<rparr>, n1))"

text \<open>The loop \<open>while (currentDate <= endDate)\<close> of \<open>seedWithAnomalies\<close>: the records pushed,
  the two counters and the draw counter.\<close>

function seedLoop ::
  "rand \<Rightarrow> string \<Rightarrow> Date \<Rightarrow> Date \<Rightarrow> energy_record list \<Rightarrow> nat \<Rightarrow> nat \<Rightarrow> nat
     \<Rightarrow> (energy_record list \<times> nat \<times> nat) \<times> nat" where
  "seedLoop g sn currentDate endDate records normalRecords anomalyRecords n =
     (if currentDate \<le> endDate then
        (case seedSlot g sn currentDate n of
           ((record, isAnomaly), n') \<Rightarrow>
             seedLoop g sn (currentDate + 2 * 60 * 60 * 1000) endDate (records @ [record])
               (if isAnomaly then normalRecords else normalRecords + 1)
               (if isAnomaly then anomalyRecords + 1 else anomalyRecords) n')
      else ((records, normalRecords, anomalyRecords), n))"
  by pat_completeness auto
termination
  by (relation "measure (\<lambda>(g, sn, currentDate, endDate, records, normalRecords, anomalyRecords, n).
                  nat (endDate - currentDate + 1))")
     auto

declare recordsLoop.simps [simp del] daysLoop.simps [simp del] seedLoop.simps [simp del]

section \<open>Concrete inputs\<close>

definition half :: rand where
  "half = (\<lambda>i. 1 / 2)"

definition unit_A :: solar_unit where
  "unit_A = \<lparr>unit_id = ''a1'', unit_serialNumber = ''SU-0001'', unit_capacity = Some 5000,
             unit_name = ''Alpha''\<rparr>"

definition unit_B :: solar_unit where
  "unit_B = \<lparr>unit_id = ''b2'', unit_serialNumber = ''SU-0002'', unit_capacity = None,
             unit_name = ''Beta''\<rparr>"

text \<open>2025-12-01T00:00:00.000Z.\<close>

definition dec_1st_2025 :: Date where
  "dec_1st_2025 = 1764547200000"

text \<open>A store that rejects every \<open>countDocuments\<close> for the serial number of \<open>unit_A\<close>.\<close>

definition flaky :: "string \<Rightarrow> Date \<Rightarrow> store_fault" where
  "flaky sn d = (if sn = ''SU-0001'' then CountFails ''store unavailable'' else NoFault)"

text \<open>A rule for the whole of 2025-12-01, the date of \<open>ZERO_GENERATION\<close>, that overrides
  the energy with \<open>50 + 100 * Math.random()\<close>.\<close>

definition DEC_1_OVERRIDE :: anomaly_pattern where
  "DEC_1_OVERRIDE = IRREGULAR_PATTERN_NIGHT\<lparr>pattern_date := Some ''2025-12-01'', nightOnly := False\<rparr>"

text \<open>What the scheduler stores for \<open>unit_A\<close> on 2025-12-01, in UTC, from an empty store.\<close>

definition persisted_dec_1st :: "energy_record list" where
  "persisted_dec_1st = fst (snd (generateRecordsForUnit half 0 NoFault unit_A dec_1st_2025 ([], 0)))"

text \<open>A store that answers every call.\<close>

definition no_faults :: "string \<Rightarrow> Date \<Rightarrow> store_fault" where
  "no_faults sn d = NoFault"

text \<open>2025-12-01T10:00:00.000Z, inside the window of \<open>ZERO_GENERATION\<close>.\<close>

definition outage_slot :: Date where
  "outage_slot = 1764583200000"

text \<open>A seeded record whose energy is 1000 before the catalog is applied.\<close>

definition base_1000 :: energy_record where
  "base_1000 = \<lparr>serialNumber = ''SU-TEST-2024'', solarUnitId = None, timestamp = 1764932400000,
                 energyGenerated = 1000, peakPower = None, efficiency = None,
                 temperature = None\<rparr>"

section \<open>The curve model: night and peak hours\<close>

text \<open>
  Claim C8. In the night hours, \<open>22 \<le> h < 24\<close> or \<open>0 \<le> h < 6\<close>, the curve model returns
  exactly 0 for every capacity, and draws no random number.
\<close>

theorem night_hours_zero:
  "(22 \<le> h \<and> h < 24) \<or> (0 \<le> h \<and> h < 6) \<Longrightarrow>
   calculateEnergyGeneration g h capacity n = (0, n)"
  by (auto simp: calculateEnergyGeneration_def)

theorem night_hours_zero_witness:
  "((22 :: real) \<le> 23 \<and> (23 :: real) < 24)
   \<and> calculateEnergyGeneration half 23 5000 0 = (0, 0)
   \<and> ((0 :: real) \<le> 4 \<and> (4 :: real) < 6)
   \<and> calculateEnergyGeneration half 4 5000 0 = (0, 0)"
  using night_hours_zero [of 23 half 5000 0] night_hours_zero [of 4 half 5000 0] by simp

lemma peak_value:
  "12 \<le> h \<Longrightarrow> h < 14 \<Longrightarrow>
   fst (calculateEnergyGeneration g h c n) = c * 0.75 * (1 + (g n * 0.15 - 0.075))"
  by (simp add: calculateEnergyGeneration_def Math_random_def)

text \<open>
  Claim C7. For every capacity \<open>c > 0\<close> and every draw in \<open>[0, 1)\<close>, the curve model's value
  at hour 12 and at hour 13 differs from \<open>0.75 c\<close> by at most 10 percent of \<open>0.75 c\<close>.
\<close>

theorem peak_hour_band:
  assumes "c > 0" and "unit_interval g" and "h = 12 \<or> h = 13"
  shows "\<bar>fst (calculateEnergyGeneration g h c n) - 0.75 * c\<bar> \<le> 0.1 * (0.75 * c)"
proof -
  have r: "0 \<le> g n" "g n < 1"
    using assms(2) by (simp_all add: unit_interval_def)
  have v: "\<bar>g n * 0.15 - 0.075\<bar> \<le> 0.1"
    using r by (intro abs_leI; simp; linarith)
  have e: "fst (calculateEnergyGeneration g h c n) - 0.75 * c
             = (0.75 * c) * (g n * 0.15 - 0.075)"
    using assms(3) by (auto simp: peak_value algebra_simps)
  have "\<bar>(0.75 * c) * (g n * 0.15 - 0.075)\<bar> = (0.75 * c) * \<bar>g n * 0.15 - 0.075\<bar>"
    using assms(1) by (simp add: abs_mult)
  also have "\<dots> \<le> (0.75 * c) * 0.1"
    using v assms(1) by (intro mult_left_mono) simp_all
  finally have f: "\<bar>(0.75 * c) * (g n * 0.15 - 0.075)\<bar> \<le> (0.75 * c) * 0.1" .
  have "0.1 * (0.75 * c) = (0.75 * c) * 0.1"
    by (rule mult.commute)
  then show ?thesis
    using e f by presburger
qed

theorem peak_hour_band_witness:
  "(5000 :: real) > 0 \<and> unit_interval half
   \<and> \<bar>fst (calculateEnergyGeneration half 12 5000 0) - 0.75 * 5000\<bar> \<le> 0.1 * (0.75 * 5000)
   \<and> \<bar>fst (calculateEnergyGeneration half 13 5000 0) - 0.75 * 5000\<bar> \<le> 0.1 * (0.75 * 5000)"
proof -
  have u: "unit_interval half"
    by (simp add: unit_interval_def half_def)
  show ?thesis
    using u peak_hour_band [of 5000 half 12 0] peak_hour_band [of 5000 half 13 0] by simp
qed

section \<open>The anomaly catalog: the sudden drop\<close>

lemma Math_round_300: "Math_round 300 = 300"
  by (simp add: Math_round_def)

text \<open>
  Claim C9. The rule SUDDEN_DROP matches the date 2025-12-05 exactly in the hours
  \<open>9 \<le> h < 15\<close>, so at hour 11; a record of that date and hour whose energy is 1000 before
  the catalog leaves the catalog with energy 300, flagged as an anomaly.
\<close>

theorem sudden_drop_scenario:
  "energyGenerated record = 1000 \<Longrightarrow>
   (shouldApplyPattern SUDDEN_DROP ''2025-12-05'' h \<longleftrightarrow> 9 \<le> h \<and> h < 15)
   \<and> shouldApplyPattern SUDDEN_DROP ''2025-12-05'' 11
   \<and> applyAnomalyPatterns g ANOMALY_PATTERNS ''2025-12-05'' 11 record n
       = ((record\<lparr>energyGenerated := 300\<rparr>, True), n)"
  by (simp add: ANOMALY_PATTERNS_def shouldApplyPattern_def ZERO_GENERATION_def
        SUDDEN_DROP_def Math_round_300)

theorem sudden_drop_scenario_witness:
  "energyGenerated base_1000 = 1000
   \<and> toISODateString (timestamp base_1000) = ''2025-12-05''
   \<and> getUTCHours (timestamp base_1000) = 11
   \<and> applyAnomalyPatterns half ANOMALY_PATTERNS ''2025-12-05'' 11 base_1000 0
       = ((base_1000\<lparr>energyGenerated := 300\<rparr>, True), 0)"
proof -
  have e: "energyGenerated base_1000 = 1000"
    by (simp add: base_1000_def)
  have d: "toISODateString (timestamp base_1000) = ''2025-12-05''"
    by code_simp
  have h: "getUTCHours (timestamp base_1000) = 11"
    by code_simp
  show ?thesis
    using e d h sudden_drop_scenario [OF e, of 11 half 0] by simp
qed

section \<open>One unit, one day: the batch and the store\<close>

lemma slotRecord_fields:
  "timestamp (fst (slotRecord g tz u c date h n)) = setHours tz date h"
  "serialNumber (fst (slotRecord g tz u c date h n)) = unit_serialNumber u"
  "energyGenerated (fst (slotRecord g tz u c date h n))
     = fst (calculateEnergyGeneration g (of_int h) c n)"
  by (simp_all add: slotRecord_def Let_def split: prod.splits)

lemma slot_count: "h < 24 \<Longrightarrow> nat ((25 - h) div 2) = Suc (nat ((25 - (h + 2)) div 2))"
  for h :: int
  by linarith

lemma recordsLoop_timestamps:
  "map timestamp (fst (recordsLoop g tz u c date hour acc n))
     = map timestamp acc
       @ map (\<lambda>k. setHours tz date (hour + 2 * int k)) [0..<nat ((25 - hour) div 2)]"
proof (induction g tz u c date hour acc n rule: recordsLoop.induct)
  case (1 g tz u c date hour acc n)
  show ?case
  proof (cases "hour < 24")
    case True
    obtain r n' where s: "slotRecord g tz u c date hour n = (r, n')"
      by (cases "slotRecord g tz u c date hour n")
    have t: "timestamp r = setHours tz date hour"
      using slotRecord_fields(1) [of g tz u c date hour n] s by simp
    have ih: "map timestamp (fst (recordsLoop g tz u c date (hour + 2) (acc @ [r]) n'))
       = map timestamp (acc @ [r])
         @ map (\<lambda>k. setHours tz date (hour + 2 + 2 * int k)) [0..<nat ((25 - (hour + 2)) div 2)]"
      using "1.IH" [OF True s [symmetric]] .
    have u: "recordsLoop g tz u c date hour acc n
               = recordsLoop g tz u c date (hour + 2) (acc @ [r]) n'"
      using True s by (subst recordsLoop.simps) simp
    show ?thesis
      unfolding u ih slot_count [OF True] map_upt_Suc
      by (simp add: t algebra_simps)
  next
    case False
    then have "nat ((25 - hour) div 2) = 0" by linarith
    with False show ?thesis by (subst recordsLoop.simps) simp
  qed
qed


lemma recordsLoop_members:
  "r \<in> set (fst (recordsLoop g tz u c date hour acc n)) \<Longrightarrow>
   r \<in> set acc \<or>
   (\<exists>h k. hour \<le> h \<and> h < 24 \<and> r = fst (slotRecord g tz u c date h k))"
proof (induction g tz u c date hour acc n rule: recordsLoop.induct)
  case (1 g tz u c date hour acc n)
  show ?case
  proof (cases "hour < 24")
    case True
    obtain r' n' where s: "slotRecord g tz u c date hour n = (r', n')"
      by (cases "slotRecord g tz u c date hour n")
    have u: "recordsLoop g tz u c date hour acc n
               = recordsLoop g tz u c date (hour + 2) (acc @ [r']) n'"
      using True s by (subst recordsLoop.simps) simp
    have "r \<in> set (acc @ [r']) \<or>
          (\<exists>h k. hour + 2 \<le> h \<and> h < 24 \<and> r = fst (slotRecord g tz u c date h k))"
      using "1.IH" [OF True s [symmetric]] "1.prems" unfolding u .
    then consider "r \<in> set acc" | "r = r'"
      | h k where "hour + 2 \<le> h" "h < 24" "r = fst (slotRecord g tz u c date h k)"
      by auto
    then show ?thesis
    proof cases
      case 1
      then show ?thesis by simp
    next
      case 2
      then have "r = fst (slotRecord g tz u c date hour n)" using s by simp
      with True show ?thesis by blast
    next
      case 3
      then have "hour \<le> h" by simp
      with 3 show ?thesis by blast
    qed
  next
    case False
    then have "recordsLoop g tz u c date hour acc n = (acc, n)"
      by (subst recordsLoop.simps) simp
    with "1.prems" show ?thesis by simp
  qed
qed

lemma recordsLoop_length: "length (fst (recordsLoop g tz u c date 0 [] n)) = 12"
proof -
  have "length (map timestamp (fst (recordsLoop g tz u c date 0 [] n))) = 12"
    unfolding recordsLoop_timestamps by simp
  then show ?thesis by simp
qed

lemma recordsLoop_serial:
  "r \<in> set (fst (recordsLoop g tz u c date 0 [] n)) \<Longrightarrow> serialNumber r = unit_serialNumber u"
  using recordsLoop_members [of r g tz u c date 0 "[]" n] by (auto simp: slotRecord_fields)

lemma setHours_midnight:
  "setHours tz (setHours tz now 0) h = setHours tz now 0 + h * msPerHour"
proof -
  define l where "l = now + tz * 60000"
  have "l - l mod msPerDay = msPerDay * (l div msPerDay)"
    by (rule minus_mod_eq_mult_div)
  then have "(l - l mod msPerDay) mod msPerDay = 0"
    by simp
  then have "setHours tz (l - l mod msPerDay - tz * 60000) h
               = l - l mod msPerDay - tz * 60000 + h * msPerHour"
    by (simp add: setHours_def Let_def)
  then show ?thesis
    by (simp add: setHours_def [of tz now] Let_def l_def)
qed

lemma setHours_utc: "setHours 0 d h = d - d mod msPerDay + h * msPerHour"
  by (simp add: setHours_def Let_def)

lemma recordsLoop_in_day:
  assumes "r \<in> set (fst (recordsLoop g tz u c (setHours tz now 0) 0 [] n))"
  shows "setHours tz now 0 \<le> timestamp r"
    and "timestamp r < setHours tz now 0 + 24 * 60 * 60 * 1000"
proof -
  have "timestamp r \<in> set (map timestamp (fst (recordsLoop g tz u c (setHours tz now 0) 0 [] n)))"
    using assms by simp
  then obtain k where k: "k < 12" "timestamp r = setHours tz now 0 + 2 * int k * msPerHour"
    unfolding recordsLoop_timestamps by (auto simp: setHours_midnight)
  show "setHours tz now 0 \<le> timestamp r"
    using k by (simp add: msPerHour_def)
  show "timestamp r < setHours tz now 0 + 24 * 60 * 60 * 1000"
    using k by (simp add: msPerHour_def)
qed

lemma countDocuments_append:
  "countDocuments (xs @ ys) sn d = countDocuments xs sn d + countDocuments ys sn d"
  by (simp add: countDocuments_def)

lemma countDocuments_other:
  "\<forall>r \<in> set ys. serialNumber r \<noteq> sn \<Longrightarrow> countDocuments ys sn d = 0"
  by (simp add: countDocuments_def)

lemma countDocuments_batch:
  "countDocuments (fst (recordsLoop g tz u c (setHours tz now 0) 0 [] n))
     (unit_serialNumber u) (setHours tz now 0) = 12"
proof -
  have "filter (\<lambda>r. serialNumber r = unit_serialNumber u \<and> setHours tz now 0 \<le> timestamp r
                     \<and> timestamp r < setHours tz now 0 + 24 * 60 * 60 * 1000)
          (fst (recordsLoop g tz u c (setHours tz now 0) 0 [] n))
        = fst (recordsLoop g tz u c (setHours tz now 0) 0 [] n)"
    by (rule filter_True) (auto simp: recordsLoop_serial dest: recordsLoop_in_day)
  then show ?thesis
    by (simp add: countDocuments_def recordsLoop_length)
qed


lemma generate_new:
  "countDocuments (fst w) (unit_serialNumber u) date = 0 \<Longrightarrow>
   generateRecordsForUnit g tz NoFault u date w
     = (Inr (Generated 12),
        (fst w @ fst (recordsLoop g tz u (capacityOf u) date 0 [] (snd w)),
         snd (recordsLoop g tz u (capacityOf u) date 0 [] (snd w))))"
  by (simp add: generateRecordsForUnit_def Let_def case_prod_beta recordsLoop_length)

lemma generate_skip:
  "countDocuments (fst w) (unit_serialNumber u) date > 0 \<Longrightarrow>
   generateRecordsForUnit g tz NoFault u date w
     = (Inr Skipped, (fst w, snd (recordsLoop g tz u (capacityOf u) date 0 [] (snd w))))"
  by (simp add: generateRecordsForUnit_def Let_def case_prod_beta)

lemma generate_docs:
  "\<exists>k. fst (snd (generateRecordsForUnit g tz flt u date w))
         = fst w @ take k (fst (recordsLoop g tz u (capacityOf u) date 0 [] (snd w)))"
proof (cases flt)
  case NoFault
  show ?thesis
  proof (cases "countDocuments (fst w) (unit_serialNumber u) date = 0")
    case True
    have "fst (snd (generateRecordsForUnit g tz flt u date w))
            = fst w @ take 12 (fst (recordsLoop g tz u (capacityOf u) date 0 [] (snd w)))"
      using NoFault generate_new [OF True, of g tz] by (simp add: recordsLoop_length)
    then show ?thesis ..
  next
    case False
    then have "fst (snd (generateRecordsForUnit g tz flt u date w))
            = fst w @ take 0 (fst (recordsLoop g tz u (capacityOf u) date 0 [] (snd w)))"
      using NoFault generate_skip [of w u date g tz] by simp
    then show ?thesis ..
  qed
next
  case (CountFails msg)
  then have "fst (snd (generateRecordsForUnit g tz flt u date w))
            = fst w @ take 0 (fst (recordsLoop g tz u (capacityOf u) date 0 [] (snd w)))"
    by (simp add: generateRecordsForUnit_def Let_def case_prod_beta)
  then show ?thesis ..
next
  case (InsertFails j msg)
  show ?thesis
  proof (cases "countDocuments (fst w) (unit_serialNumber u) date = 0")
    case True
    with InsertFails
    have "fst (snd (generateRecordsForUnit g tz flt u date w))
            = fst w @ take j (fst (recordsLoop g tz u (capacityOf u) date 0 [] (snd w)))"
      by (simp add: generateRecordsForUnit_def Let_def case_prod_beta)
    then show ?thesis ..
  next
    case False
    with InsertFails
    have "fst (snd (generateRecordsForUnit g tz flt u date w))
            = fst w @ take 0 (fst (recordsLoop g tz u (capacityOf u) date 0 [] (snd w)))"
      by (simp add: generateRecordsForUnit_def Let_def case_prod_beta)
    then show ?thesis ..
  qed
qed

lemma generate_other_serial:
  assumes "sn \<noteq> unit_serialNumber u"
  shows "countDocuments (fst (snd (generateRecordsForUnit g tz flt u date w))) sn d
           = countDocuments (fst w) sn d"
proof -
  obtain k where k: "fst (snd (generateRecordsForUnit g tz flt u date w))
         = fst w @ take k (fst (recordsLoop g tz u (capacityOf u) date 0 [] (snd w)))"
    using generate_docs by blast
  have "\<forall>r \<in> set (take k (fst (recordsLoop g tz u (capacityOf u) date 0 [] (snd w)))).
          serialNumber r \<noteq> sn"
    using assms by (auto dest!: in_set_takeD recordsLoop_serial)
  then show ?thesis
    unfolding k countDocuments_append by (simp add: countDocuments_other)
qed

text \<open>
  Claim C1. Let the day be the local midnight that both runs compute, and let the store
  answer both calls. Two calls of the generation for the same unit and day in sequence:
  the second one finds records, inserts nothing and is a skip; and when the store held no
  record of that unit and day before the first call, the first call inserts 12 and the
  store holds exactly 12 records of that unit and day after the second.
\<close>

theorem generation_idempotent:
  "case generateRecordsForUnit g tz NoFault u (setHours tz now 0) w of
     (r1, w1) \<Rightarrow>
       (case generateRecordsForUnit g tz NoFault u (setHours tz now 0) w1 of
          (r2, w2) \<Rightarrow>
            r2 = Inr Skipped \<and> fst w2 = fst w1
            \<and> (countDocuments (fst w) (unit_serialNumber u) (setHours tz now 0) = 0 \<longrightarrow>
                 r1 = Inr (Generated 12)
                 \<and> countDocuments (fst w2) (unit_serialNumber u) (setHours tz now 0) = 12))"
proof (cases "countDocuments (fst w) (unit_serialNumber u) (setHours tz now 0) = 0")
  case True
  define recs where "recs = fst (recordsLoop g tz u (capacityOf u) (setHours tz now 0) 0 [] (snd w))"
  define n1 where "n1 = snd (recordsLoop g tz u (capacityOf u) (setHours tz now 0) 0 [] (snd w))"
  have first: "generateRecordsForUnit g tz NoFault u (setHours tz now 0) w
                 = (Inr (Generated 12), (fst w @ recs, n1))"
    using generate_new [OF True, of g tz] by (simp add: recs_def n1_def)
  have c: "countDocuments (fst w @ recs) (unit_serialNumber u) (setHours tz now 0) = 12"
    unfolding countDocuments_append recs_def using True by (simp add: countDocuments_batch)
  then have "countDocuments (fst (fst w @ recs, n1)) (unit_serialNumber u) (setHours tz now 0) > 0"
    by simp
  from generate_skip [OF this, of g tz] c first show ?thesis
    by simp
next
  case False
  then have pos: "countDocuments (fst w) (unit_serialNumber u) (setHours tz now 0) > 0"
    by simp
  define n1 where "n1 = snd (recordsLoop g tz u (capacityOf u) (setHours tz now 0) 0 [] (snd w))"
  have first: "generateRecordsForUnit g tz NoFault u (setHours tz now 0) w
                 = (Inr Skipped, (fst w, n1))"
    using generate_skip [OF pos, of g tz] by (simp add: n1_def)
  have "countDocuments (fst (fst w, n1)) (unit_serialNumber u) (setHours tz now 0) > 0"
    using pos by simp
  from generate_skip [OF this, of g tz] first False show ?thesis
    by simp
qed

theorem generation_idempotent_witness:
  "countDocuments (fst ([], 0)) (unit_serialNumber unit_A) (setHours 0 dec_1st_2025 0) = 0
   \<and> (case generateRecordsForUnit half 0 NoFault unit_A (setHours 0 dec_1st_2025 0) ([], 0) of
        (r1, w1) \<Rightarrow>
          (case generateRecordsForUnit half 0 NoFault unit_A (setHours 0 dec_1st_2025 0) w1 of
             (r2, w2) \<Rightarrow>
               r1 = Inr (Generated 12) \<and> r2 = Inr Skipped
               \<and> countDocuments (fst w2) (unit_serialNumber unit_A)
                    (setHours 0 dec_1st_2025 0) = 12))"
proof -
  have h: "countDocuments (fst ([], 0)) (unit_serialNumber unit_A) (setHours 0 dec_1st_2025 0) = 0"
    by (simp add: countDocuments_def)
  show ?thesis
    using h generation_idempotent
            [where g = half and tz = 0 and u = unit_A and now = dec_1st_2025 and w = "([], 0)"]
    by (auto split: prod.splits)
qed

section \<open>The timestamps of a batch\<close>

lemma utc_grid: "(d - d mod msPerDay + 2 * int k * msPerHour) mod (2 * msPerHour) = 0"
proof -
  have "d - d mod msPerDay = msPerDay * (d div msPerDay)"
    by (rule minus_mod_eq_mult_div)
  then have "d - d mod msPerDay + 2 * int k * msPerHour
               = (2 * msPerHour) * (12 * (d div msPerDay) + int k)"
    by (simp add: msPerDay_def msPerHour_def)
  then show ?thesis
    by simp
qed

text \<open>
  Claim C4, as amended. In a process whose time zone keeps a fixed offset from UTC, the
  batch of one generation holds exactly 12 records, and their timestamps are the instants
  00:00, 02:00, ..., 22:00 local time of the local calendar day of the date; from the local
  midnight both runs compute they are two hours apart. When that offset is zero, the
  process running in UTC, they are the instants of that UTC day on the 2-hour UTC grid.
  The batch is what a generation inserts when the store answers and holds no record of
  the unit and day. Zones with daylight-saving changes are not covered.
\<close>

theorem batch_timestamps_local:
  "length (fst (recordsLoop g tz u c date 0 [] n)) = 12
   \<and> map timestamp (fst (recordsLoop g tz u c date 0 [] n))
       = map (\<lambda>k. setHours tz date (2 * int k)) [0..<12]
   \<and> map timestamp (fst (recordsLoop g tz u c (setHours tz now 0) 0 [] n))
       = map (\<lambda>k. setHours tz now 0 + 2 * int k * msPerHour) [0..<12]
   \<and> (tz = 0 \<longrightarrow>
        (\<forall>r \<in> set (fst (recordsLoop g tz u c date 0 [] n)).
           timestamp r mod (2 * msPerHour) = 0
           \<and> date - date mod msPerDay \<le> timestamp r
           \<and> timestamp r < date - date mod msPerDay + msPerDay))
   \<and> (countDocuments (fst w) (unit_serialNumber u) date = 0 \<longrightarrow>
        generateRecordsForUnit g tz NoFault u date w
          = (Inr (Generated 12),
             (fst w @ fst (recordsLoop g tz u (capacityOf u) date 0 [] (snd w)),
              snd (recordsLoop g tz u (capacityOf u) date 0 [] (snd w)))))"
proof (intro conjI impI ballI)
  show "length (fst (recordsLoop g tz u c date 0 [] n)) = 12"
    by (rule recordsLoop_length)
  show "map timestamp (fst (recordsLoop g tz u c date 0 [] n))
       = map (\<lambda>k. setHours tz date (2 * int k)) [0..<12]"
    unfolding recordsLoop_timestamps by simp
  show "map timestamp (fst (recordsLoop g tz u c (setHours tz now 0) 0 [] n))
       = map (\<lambda>k. setHours tz now 0 + 2 * int k * msPerHour) [0..<12]"
    unfolding recordsLoop_timestamps by (simp add: setHours_midnight)
next
  fix r
  assume z: "tz = 0" and r: "r \<in> set (fst (recordsLoop g tz u c date 0 [] n))"
  have "timestamp r \<in> set (map timestamp (fst (recordsLoop g tz u c date 0 [] n)))"
    using r by simp
  then obtain k where k: "k < 12" "timestamp r = date - date mod msPerDay + 2 * int k * msPerHour"
    unfolding recordsLoop_timestamps using z by (auto simp: setHours_utc)
  show "timestamp r mod (2 * msPerHour) = 0"
    unfolding k(2) by (rule utc_grid)
  show "date - date mod msPerDay \<le> timestamp r"
    using k by (simp add: msPerHour_def)
  show "timestamp r < date - date mod msPerDay + msPerDay"
    using k by (simp add: msPerHour_def msPerDay_def)
next
  assume "countDocuments (fst w) (unit_serialNumber u) date = 0"
  then show "generateRecordsForUnit g tz NoFault u date w
          = (Inr (Generated 12),
             (fst w @ fst (recordsLoop g tz u (capacityOf u) date 0 [] (snd w)),
              snd (recordsLoop g tz u (capacityOf u) date 0 [] (snd w))))"
    by (rule generate_new)
qed

theorem batch_timestamps_local_witness:
  "(0 :: int) = 0
   \<and> countDocuments (fst ([], 0)) (unit_serialNumber unit_A) dec_1st_2025 = 0
   \<and> generateRecordsForUnit half 0 NoFault unit_A dec_1st_2025 ([], 0)
       = (Inr (Generated 12), recordsLoop half 0 unit_A (capacityOf unit_A) dec_1st_2025 0 [] 0)
   \<and> timestamp (hd (fst (recordsLoop half 0 unit_A (capacityOf unit_A) dec_1st_2025 0 [] 0)))
         mod (2 * msPerHour) = 0
   \<and> timestamp (last (fst (recordsLoop half 0 unit_A (capacityOf unit_A) dec_1st_2025 0 [] 0)))
         mod (2 * msPerHour) = 0"
proof -
  have h: "countDocuments (fst ([], 0)) (unit_serialNumber unit_A) dec_1st_2025 = 0"
    by (simp add: countDocuments_def)
  note t = batch_timestamps_local
            [where g = half and tz = 0 and u = unit_A and c = "capacityOf unit_A"
               and date = dec_1st_2025 and now = dec_1st_2025 and n = 0 and w = "([], 0)"]
  have "fst (recordsLoop half 0 unit_A (capacityOf unit_A) dec_1st_2025 0 [] 0) \<noteq> []"
    using t by auto
  then have m: "hd (fst (recordsLoop half 0 unit_A (capacityOf unit_A) dec_1st_2025 0 [] 0))
                  \<in> set (fst (recordsLoop half 0 unit_A (capacityOf unit_A) dec_1st_2025 0 [] 0))"
    "last (fst (recordsLoop half 0 unit_A (capacityOf unit_A) dec_1st_2025 0 [] 0))
                  \<in> set (fst (recordsLoop half 0 unit_A (capacityOf unit_A) dec_1st_2025 0 [] 0))"
    by simp_all
  show ?thesis
    using h m t by simp
qed

text \<open>
  The claim as written fails where local time is not UTC: in a zone five and a half hours
  east of UTC, the first record of the day is half an hour off the 2-hour UTC grid.
\<close>

theorem utc_grid_counterexample:
  "timestamp (hd (fst (snd (generateRecordsForUnit half 330 NoFault unit_A
                              (setHours 330 dec_1st_2025 0) ([], 0)))))
     mod (2 * msPerHour) = 1800000"
  by code_simp

section \<open>The run for today\<close>

lemma unitsLoop_other:
  "sn \<notin> unit_serialNumber ` set us \<Longrightarrow>
   countDocuments (fst (unitsLoop g tz flt us date w)) sn d = countDocuments (fst w) sn d"
  by (induction us arbitrary: w) (simp_all add: generate_other_serial)

lemma unitsLoop_generates:
  assumes "distinct (map unit_serialNumber us)" and "u \<in> set us"
    and "flt (unit_serialNumber u) (setHours tz now 0) = NoFault"
    and "countDocuments (fst w) (unit_serialNumber u) (setHours tz now 0) = 0"
  shows "countDocuments (fst (unitsLoop g tz flt us (setHours tz now 0) w))
           (unit_serialNumber u) (setHours tz now 0) = 12"
  using assms
proof (induction us arbitrary: w)
  case Nil
  then show ?case by simp
next
  case (Cons v vs)
  show ?case
  proof (cases "v = u")
    case True
    have notin: "unit_serialNumber u \<notin> unit_serialNumber ` set vs"
      using Cons.prems(1) True by simp
    have step: "generateRecordsForUnit g tz (flt (unit_serialNumber u) (setHours tz now 0)) u
                  (setHours tz now 0) w
                = (Inr (Generated 12),
                   (fst w @ fst (recordsLoop g tz u (capacityOf u) (setHours tz now 0) 0 [] (snd w)),
                    snd (recordsLoop g tz u (capacityOf u) (setHours tz now 0) 0 [] (snd w))))"
      using generate_new [OF Cons.prems(4), of g tz] Cons.prems(3) by simp
    show ?thesis
      using True Cons.prems(4)
      by (simp add: step unitsLoop_other [OF notin] countDocuments_append countDocuments_batch)
  next
    case False
    then have mem: "u \<in> set vs"
      using Cons.prems(2) by simp
    then have "unit_serialNumber u \<in> unit_serialNumber ` set vs"
      by simp
    then have ne: "unit_serialNumber u \<noteq> unit_serialNumber v"
      using Cons.prems(1) by auto
    have d: "distinct (map unit_serialNumber vs)"
      using Cons.prems(1) by simp
    have c: "countDocuments
               (fst (snd (generateRecordsForUnit g tz (flt (unit_serialNumber v) (setHours tz now 0))
                            v (setHours tz now 0) w)))
               (unit_serialNumber u) (setHours tz now 0) = 0"
      using generate_other_serial [OF ne] Cons.prems(4) by simp
    show ?thesis
      using Cons.IH [OF d mem Cons.prems(3) c] by simp
  qed
qed

text \<open>
  Claim C5. The run for today returns an error exactly when the request to the registry
  fails, and then the registry's error. With no active unit it returns without error and
  leaves the store as it was. A unit whose generation fails does not stop the run: with
  distinct serial numbers, every unit for which the store answers, and of which it held no
  record for today, has its 12 records after the run, whatever the store did for the other
  units.
\<close>

theorem run_today_errors:
  "((\<exists>e. fst (generateDailyData g tz flt registry now w) = Inl e) \<longleftrightarrow> (\<exists>e. registry = Inl e))
   \<and> generateDailyData g tz flt (Inl err) now w = (Inl err, w)
   \<and> generateDailyData g tz flt (Inr []) now w = (Inr (), w)
   \<and> (distinct (map unit_serialNumber us) \<and> u \<in> set us
        \<and> flt (unit_serialNumber u) (setHours tz now 0) = NoFault
        \<and> countDocuments (fst w) (unit_serialNumber u) (setHours tz now 0) = 0 \<longrightarrow>
        fst (generateDailyData g tz flt (Inr us) now w) = Inr ()
        \<and> countDocuments (fst (snd (generateDailyData g tz flt (Inr us) now w)))
             (unit_serialNumber u) (setHours tz now 0) = 12)"
proof (intro conjI impI)
  show "(\<exists>e. fst (generateDailyData g tz flt registry now w) = Inl e) \<longleftrightarrow> (\<exists>e. registry = Inl e)"
    by (cases registry) (simp_all add: generateDailyData_def Let_def)
  show "generateDailyData g tz flt (Inl err) now w = (Inl err, w)"
    by (simp add: generateDailyData_def)
  show "generateDailyData g tz flt (Inr []) now w = (Inr (), w)"
    by (simp add: generateDailyData_def)
next
  assume a: "distinct (map unit_serialNumber us) \<and> u \<in> set us
        \<and> flt (unit_serialNumber u) (setHours tz now 0) = NoFault
        \<and> countDocuments (fst w) (unit_serialNumber u) (setHours tz now 0) = 0"
  then have ne: "us \<noteq> []"
    by auto
  show "fst (generateDailyData g tz flt (Inr us) now w) = Inr ()"
    by (simp add: generateDailyData_def Let_def)
  have "countDocuments (fst (unitsLoop g tz flt us (setHours tz now 0) w))
           (unit_serialNumber u) (setHours tz now 0) = 12"
    using a by (intro unitsLoop_generates) simp_all
  then show "countDocuments (fst (snd (generateDailyData g tz flt (Inr us) now w)))
             (unit_serialNumber u) (setHours tz now 0) = 12"
    using ne by (simp add: generateDailyData_def Let_def)
qed

theorem run_today_errors_witness:
  "distinct (map unit_serialNumber [unit_A, unit_B]) \<and> unit_B \<in> set [unit_A, unit_B]
   \<and> flaky (unit_serialNumber unit_B) (setHours 0 dec_1st_2025 0) = NoFault
   \<and> countDocuments (fst ([], 0)) (unit_serialNumber unit_B) (setHours 0 dec_1st_2025 0) = 0
   \<and> fst (generateRecordsForUnit half 0 (flaky (unit_serialNumber unit_A) (setHours 0 dec_1st_2025 0))
            unit_A (setHours 0 dec_1st_2025 0) ([], 0)) = Inl (StoreError ''store unavailable'')
   \<and> fst (generateDailyData half 0 flaky (Inr [unit_A, unit_B]) dec_1st_2025 ([], 0)) = Inr ()
   \<and> countDocuments
        (fst (snd (generateDailyData half 0 flaky (Inr [unit_A, unit_B]) dec_1st_2025 ([], 0))))
        (unit_serialNumber unit_B) (setHours 0 dec_1st_2025 0) = 12"
proof -
  have h: "distinct (map unit_serialNumber [unit_A, unit_B]) \<and> unit_B \<in> set [unit_A, unit_B]
     \<and> flaky (unit_serialNumber unit_B) (setHours 0 dec_1st_2025 0) = NoFault
     \<and> countDocuments (fst ([], 0)) (unit_serialNumber unit_B) (setHours 0 dec_1st_2025 0) = 0"
    by (simp add: unit_A_def unit_B_def flaky_def countDocuments_def)
  have f: "fst (generateRecordsForUnit half 0
                  (flaky (unit_serialNumber unit_A) (setHours 0 dec_1st_2025 0))
                  unit_A (setHours 0 dec_1st_2025 0) ([], 0))
             = Inl (StoreError ''store unavailable'')"
    by (simp add: generateRecordsForUnit_def flaky_def unit_A_def Let_def case_prod_beta)
  show ?thesis
    using h f run_today_errors
            [where g = half and tz = 0 and flt = flaky and us = "[unit_A, unit_B]"
               and u = unit_B and now = dec_1st_2025 and w = "([], 0)"]
    by simp
qed

section \<open>The administrative trigger for historical data\<close>

lemma daysLoop_iterations:
  "daysLoop g tz flt us clock (Some d) i w
     = foldl (\<lambda>w' j. unitsLoop g tz flt us (setHours tz (clock j - int j * msPerDay) 0) w')
         w [i..<nat \<lceil>d\<rceil>]"
proof (induction "nat \<lceil>d\<rceil> - i" arbitrary: i w)
  case 0
  have "\<not> real i < d"
  proof
    assume "real i < d"
    then have "int i < \<lceil>d\<rceil>" by (simp add: less_ceiling_iff)
    then have "i < nat \<lceil>d\<rceil>" by linarith
    with 0 show False by linarith
  qed
  moreover have "nat \<lceil>d\<rceil> \<le> i"
    using 0 by linarith
  then have "[i..<nat \<lceil>d\<rceil>] = []"
    by simp
  ultimately show ?case
    by (subst daysLoop.simps) simp
next
  case (Suc m)
  then have lt: "i < nat \<lceil>d\<rceil>" by simp
  then have "int i < \<lceil>d\<rceil>" by simp
  then have c: "real i < d" by (simp add: less_ceiling_iff)
  have m: "m = nat \<lceil>d\<rceil> - Suc i" using Suc.hyps(2) by simp
  show ?case
    using c lt Suc.hyps(1) [OF m]
    by (subst daysLoop.simps) (simp add: upt_rec [of i])
qed

text \<open>
  Claim C10. The handler runs the backfill with \<open>req.body?.days || 7\<close> and answers from
  its outcome: status 500 with the error's message when the registry request fails,
  status 200 and success otherwise, the store being the one the backfill leaves. A body
  without \<open>days\<close>, or with a falsy \<open>days\<close> (0, null, false, the empty string), runs the
  backfill with 7: the units' loop is run for the seven days 0 to 6 back. Any other number
  \<open>d\<close> is passed on without a check that it is a whole number of at least 1: the loop runs
  for the days 0 up to, not including, the ceiling of \<open>d\<close>, so three days for 2.5, and for
  no day at all when \<open>d\<close> is negative, which touches no record and is still answered with
  status 200 and success. The day of iteration \<open>j\<close> is the local midnight \<open>j\<close> days back, in
  a zone of fixed offset.
\<close>

theorem historical_days_default:
  "requested_days None = JNumber 7
   \<and> \<not> truthy (JNumber 0) \<and> \<not> truthy JNull \<and> \<not> truthy (JBool False) \<and> \<not> truthy (JString [])
   \<and> (\<not> truthy v \<longrightarrow> requested_days (Some v) = JNumber 7)
   \<and> (truthy v \<longrightarrow> requested_days (Some v) = v)
   \<and> generate_historical_data_handler g tz flt registry clock coerce body w
       = (case generateHistoricalData g tz flt registry clock coerce (requested_days body) w of
            (Inr x, w') \<Rightarrow>
              (\<lparr>status = 200, success = True, days_reported = Some (requested_days body),
                error_message = None\<rparr>, w')
          | (Inl e, w') \<Rightarrow>
              (\<lparr>status = 500, success = False, days_reported = None,
                error_message = Some (error_text e)\<rparr>, w'))
   \<and> generate_historical_data_handler g tz flt (Inl err) clock coerce body w
       = (\<lparr>status = 500, success = False, days_reported = None,
           error_message = Some (error_text err)\<rparr>, w)
   \<and> generate_historical_data_handler g tz flt (Inr us) clock coerce None w
       = (\<lparr>status = 200, success = True, days_reported = Some (JNumber 7), error_message = None\<rparr>,
          foldl (\<lambda>w' j. unitsLoop g tz flt us (setHours tz (clock j - int j * msPerDay) 0) w')
            w [0..<7])
   \<and> (\<not> truthy v \<longrightarrow>
        generate_historical_data_handler g tz flt (Inr us) clock coerce (Some v) w
          = (\<lparr>status = 200, success = True, days_reported = Some (JNumber 7),
              error_message = None\<rparr>,
             foldl (\<lambda>w' j. unitsLoop g tz flt us (setHours tz (clock j - int j * msPerDay) 0) w')
               w [0..<7]))
   \<and> (d \<noteq> 0 \<longrightarrow>
        generate_historical_data_handler g tz flt (Inr us) clock coerce (Some (JNumber d)) w
          = (\<lparr>status = 200, success = True, days_reported = Some (JNumber d),
              error_message = None\<rparr>,
             foldl (\<lambda>w' j. unitsLoop g tz flt us (setHours tz (clock j - int j * msPerDay) 0) w')
               w [0..<nat \<lceil>d\<rceil>]))
   \<and> (d < 0 \<longrightarrow>
        generate_historical_data_handler g tz flt (Inr us) clock coerce (Some (JNumber d)) w
          = (\<lparr>status = 200, success = True, days_reported = Some (JNumber d),
              error_message = None\<rparr>, w))"
proof -
  have seven: "nat \<lceil>7 :: real\<rceil> = 7"
    by simp
  have neg: "d < 0 \<Longrightarrow> [0..<nat \<lceil>d\<rceil>] = []"
  proof -
    assume "d < 0"
    then have "\<lceil>d\<rceil> \<le> 0" by (simp add: ceiling_le_iff)
    then show ?thesis by simp
  qed
  have tie: "generate_historical_data_handler g tz flt registry clock coerce body w
       = (case generateHistoricalData g tz flt registry clock coerce (requested_days body) w of
            (Inr x, w') \<Rightarrow>
              (\<lparr>status = 200, success = True, days_reported = Some (requested_days body),
                error_message = None\<rparr>, w')
          | (Inl e, w') \<Rightarrow>
              (\<lparr>status = 500, success = False, days_reported = None,
                error_message = Some (error_text e)\<rparr>, w'))"
    by (simp add: generate_historical_data_handler_def Let_def)
  have run: "generate_historical_data_handler g tz flt (Inr us) clock coerce (Some (JNumber x)) w
          = (\<lparr>status = 200, success = True, days_reported = Some (requested_days (Some (JNumber x))),
              error_message = None\<rparr>,
             foldl (\<lambda>w' j. unitsLoop g tz flt us (setHours tz (clock j - int j * msPerDay) 0) w')
               w [0..<nat \<lceil>case requested_days (Some (JNumber x)) of JNumber y \<Rightarrow> y | _ \<Rightarrow> 0\<rceil>])"
    for x
    by (simp add: generate_historical_data_handler_def Let_def generateHistoricalData_def
          requested_days_def truthy_def ToNumber_def daysLoop_iterations)
  have falsy: "\<not> truthy v \<Longrightarrow>
        generate_historical_data_handler g tz flt (Inr us) clock coerce (Some v) w
          = generate_historical_data_handler g tz flt (Inr us) clock coerce (Some (JNumber 7)) w"
    by (simp add: generate_historical_data_handler_def Let_def requested_days_def truthy_def)
  have absent: "generate_historical_data_handler g tz flt (Inr us) clock coerce None w
          = generate_historical_data_handler g tz flt (Inr us) clock coerce (Some (JNumber 7)) w"
    by (simp add: generate_historical_data_handler_def Let_def requested_days_def truthy_def)
  have r7: "requested_days (Some (JNumber 7)) = JNumber 7"
    by (simp add: requested_days_def truthy_def)
  have rd: "d \<noteq> 0 \<Longrightarrow> requested_days (Some (JNumber d)) = JNumber d"
    by (simp add: requested_days_def truthy_def)
  have fail: "generate_historical_data_handler g tz flt (Inl err) clock coerce body w
       = (\<lparr>status = 500, success = False, days_reported = None,
           error_message = Some (error_text err)\<rparr>, w)"
    by (simp add: generate_historical_data_handler_def Let_def generateHistoricalData_def)
  have basics: "requested_days None = JNumber 7"
    "\<not> truthy (JNumber 0)" "\<not> truthy JNull" "\<not> truthy (JBool False)" "\<not> truthy (JString [])"
    "\<not> truthy v \<longrightarrow> requested_days (Some v) = JNumber 7"
    "truthy v \<longrightarrow> requested_days (Some v) = v"
    by (simp_all add: requested_days_def truthy_def)
  show ?thesis
    using basics tie fail
    by (simp add: absent falsy run [of 7] run [of d] r7 rd seven neg)
qed

theorem historical_days_default_witness:
  "\<not> truthy JNull
   \<and> generate_historical_data_handler half 0 no_faults (Inr [unit_A]) (\<lambda>i. dec_1st_2025)
        (\<lambda>v. None) (Some JNull) ([], 0)
       = generate_historical_data_handler half 0 no_faults (Inr [unit_A]) (\<lambda>i. dec_1st_2025)
           (\<lambda>v. None) None ([], 0)
   \<and> length (fst (snd (generate_historical_data_handler half 0 no_faults (Inr [unit_A])
                          (\<lambda>i. dec_1st_2025) (\<lambda>v. None) None ([], 0)))) = 84
   \<and> truthy (JNumber (5 / 2)) \<and> requested_days (Some (JNumber (5 / 2))) = JNumber (5 / 2)
   \<and> length (fst (snd (generate_historical_data_handler half 0 no_faults (Inr [unit_A])
                          (\<lambda>i. dec_1st_2025) (\<lambda>v. None) (Some (JNumber (5 / 2))) ([], 0)))) = 36
   \<and> (- 3 :: real) \<noteq> 0 \<and> (- 3 :: real) < 0
   \<and> generate_historical_data_handler half 0 no_faults (Inr [unit_A]) (\<lambda>i. dec_1st_2025)
        (\<lambda>v. None) (Some (JNumber (- 3))) ([], 0)
       = (\<lparr>status = 200, success = True, days_reported = Some (JNumber (- 3)),
           error_message = None\<rparr>, ([], 0))"
proof -
  note T = historical_days_default [where v = JNull and g = half and tz = 0 and flt = no_faults
        and us = "[unit_A]" and clock = "\<lambda>i. dec_1st_2025" and coerce = "\<lambda>v. None"
        and w = "([], 0)" and d = "- 3"]
  note U = historical_days_default [where v = "JNumber (5 / 2)"]
  have t: "\<not> truthy JNull"
    using T by blast
  have u: "truthy (JNumber (5 / 2))"
    by (simp add: truthy_def)
  have r: "requested_days (Some (JNumber (5 / 2))) = JNumber (5 / 2)"
    using U u by blast
  have a: "generate_historical_data_handler half 0 no_faults (Inr [unit_A]) (\<lambda>i. dec_1st_2025)
        (\<lambda>v. None) (Some JNull) ([], 0)
       = generate_historical_data_handler half 0 no_faults (Inr [unit_A]) (\<lambda>i. dec_1st_2025)
           (\<lambda>v. None) None ([], 0)"
    using T t by presburger
  have n: "(- 3 :: real) \<noteq> 0" "(- 3 :: real) < 0"
    by simp_all
  have b: "generate_historical_data_handler half 0 no_faults (Inr [unit_A]) (\<lambda>i. dec_1st_2025)
        (\<lambda>v. None) (Some (JNumber (- 3))) ([], 0)
       = (\<lparr>status = 200, success = True, days_reported = Some (JNumber (- 3)),
           error_message = None\<rparr>, ([], 0))"
    using T n by blast
  have n84: "length (fst (snd (generate_historical_data_handler half 0 no_faults (Inr [unit_A])
                          (\<lambda>i. dec_1st_2025) (\<lambda>v. None) None ([], 0)))) = 84"
    by code_simp
  have n36: "length (fst (snd (generate_historical_data_handler half 0 no_faults (Inr [unit_A])
                          (\<lambda>i. dec_1st_2025) (\<lambda>v. None) (Some (JNumber (5 / 2))) ([], 0)))) = 36"
    by code_simp
  show ?thesis
    using t u r a b n n84 n36 by blast
qed

section \<open>The anomaly catalog: first match wins\<close>

text \<open>
  Claim C3. The scan applies at most one rule. When no rule before \<open>p\<close> matches the date
  and hour and \<open>p\<close> does, the result is \<open>p\<close>'s transform of the base record, flagged as an
  anomaly, whatever rules follow \<open>p\<close> and whether they match or not. When no rule matches,
  the base record comes back unchanged with the flag false. This holds for every ordered
  list of rules, the catalog \<open>ANOMALY_PATTERNS\<close> among them.
\<close>

theorem first_match_wins:
  "((\<forall>q \<in> set before. \<not> shouldApplyPattern q ds h) \<and> shouldApplyPattern p ds h \<longrightarrow>
      applyAnomalyPatterns g (before @ p # after) ds h base n
        = ((fst (pattern_apply p g base n), True), snd (pattern_apply p g base n)))
   \<and> ((\<forall>q \<in> set ps. \<not> shouldApplyPattern q ds h) \<longrightarrow>
        applyAnomalyPatterns g ps ds h base n = ((base, False), n))"
proof (intro conjI impI)
  assume "(\<forall>q \<in> set before. \<not> shouldApplyPattern q ds h) \<and> shouldApplyPattern p ds h"
  then show "applyAnomalyPatterns g (before @ p # after) ds h base n
        = ((fst (pattern_apply p g base n), True), snd (pattern_apply p g base n))"
    by (induction before) (simp_all add: case_prod_beta)
next
  assume "\<forall>q \<in> set ps. \<not> shouldApplyPattern q ds h"
  then show "applyAnomalyPatterns g ps ds h base n = ((base, False), n)"
    by (induction ps) simp_all
qed

theorem first_match_wins_witness:
  "shouldApplyPattern ZERO_GENERATION ''2025-12-01'' 10
   \<and> shouldApplyPattern DEC_1_OVERRIDE ''2025-12-01'' 10
   \<and> applyAnomalyPatterns half [ZERO_GENERATION, DEC_1_OVERRIDE] ''2025-12-01'' 10 base_1000 0
       = ((base_1000\<lparr>energyGenerated := 0\<rparr>, True), 0)
   \<and> applyAnomalyPatterns half [DEC_1_OVERRIDE, ZERO_GENERATION] ''2025-12-01'' 10 base_1000 0
       = ((base_1000\<lparr>energyGenerated := 100\<rparr>, True), 1)
   \<and> applyAnomalyPatterns half ANOMALY_PATTERNS ''2025-11-30'' 10 base_1000 0
       = ((base_1000, False), 0)"
proof -
  have hz: "shouldApplyPattern ZERO_GENERATION ''2025-12-01'' 10"
    by (simp add: shouldApplyPattern_def ZERO_GENERATION_def)
  have ho: "shouldApplyPattern DEC_1_OVERRIDE ''2025-12-01'' 10"
    by (simp add: shouldApplyPattern_def DEC_1_OVERRIDE_def IRREGULAR_PATTERN_NIGHT_def)
  have hn: "\<forall>q \<in> set ANOMALY_PATTERNS. \<not> shouldApplyPattern q ''2025-11-30'' 10"
    by (simp add: ANOMALY_PATTERNS_def shouldApplyPattern_def ZERO_GENERATION_def SUDDEN_DROP_def
          CAPACITY_FACTOR_def IRREGULAR_PATTERN_def IRREGULAR_PATTERN_NIGHT_def)
  have ha: "pattern_apply ZERO_GENERATION half base_1000 0 = (base_1000\<lparr>energyGenerated := 0\<rparr>, 0)"
    by (simp add: ZERO_GENERATION_def)
  have hb: "pattern_apply DEC_1_OVERRIDE half base_1000 0 = (base_1000\<lparr>energyGenerated := 100\<rparr>, 1)"
    by (simp add: DEC_1_OVERRIDE_def IRREGULAR_PATTERN_NIGHT_def Math_random_def half_def)
  show ?thesis
    using hz ho hn ha hb
      first_match_wins [where before = "[]" and p = ZERO_GENERATION and after = "[DEC_1_OVERRIDE]"
        and ds = "''2025-12-01''" and h = 10 and g = half and base = base_1000 and n = 0
        and ps = ANOMALY_PATTERNS]
      first_match_wins [where before = "[]" and p = DEC_1_OVERRIDE and after = "[ZERO_GENERATION]"
        and ds = "''2025-12-01''" and h = 10 and g = half and base = base_1000 and n = 0
        and ps = "[]"]
      first_match_wins [where ps = ANOMALY_PATTERNS and ds = "''2025-11-30''" and h = 10
        and g = half and base = base_1000 and n = 0 and before = "[]" and p = ZERO_GENERATION
        and after = "[]"]
    by simp
qed

section \<open>Energy is never negative\<close>

lemma Math_round_Ints: "Math_round x \<in> \<int>"
  by (simp add: Math_round_def)

lemma Math_round_near: "\<bar>Math_round x - x\<bar> \<le> 1 / 2"
  unfolding Math_round_def by linarith

lemma Math_round_nonneg: "0 \<le> x \<Longrightarrow> 0 \<le> Math_round x"
  unfolding Math_round_def by simp

lemma curve_nonneg:
  assumes "0 < c" and "0 \<le> g n" and "g n < 1"
  shows "0 \<le> fst (calculateEnergyGeneration g h c n)"
proof -
  have "0 \<le> c * 0.75 * (1 + (g n * 0.15 - 0.075))"
    using assms by (intro mult_nonneg_nonneg) simp_all
  then show ?thesis
    by (simp add: calculateEnergyGeneration_def Math_random_def Let_def)
qed

lemma pattern_nonneg:
  assumes "p \<in> set ANOMALY_PATTERNS" and "0 \<le> g n" and "0 \<le> energyGenerated record"
  shows "0 \<le> energyGenerated (fst (pattern_apply p g record n))"
proof -
  consider "p = ZERO_GENERATION" | "p = SUDDEN_DROP" | "p = CAPACITY_FACTOR"
    | "p = IRREGULAR_PATTERN" | "p = IRREGULAR_PATTERN_NIGHT"
    using assms(1) by (auto simp: ANOMALY_PATTERNS_def)
  then show ?thesis
  proof cases
    case 1
    then show ?thesis by (simp add: ZERO_GENERATION_def)
  next
    case 2
    then show ?thesis using assms(3) by (simp add: SUDDEN_DROP_def Math_round_nonneg)
  next
    case 3
    then show ?thesis using assms(3) by (simp add: CAPACITY_FACTOR_def Math_round_nonneg)
  next
    case 4
    then show ?thesis
      using assms(3) by (simp add: IRREGULAR_PATTERN_def Math_random_def Math_round_nonneg)
  next
    case 5
    then show ?thesis
      using assms(2) by (simp add: IRREGULAR_PATTERN_NIGHT_def Math_random_def)
  qed
qed

lemma scan_nonneg:
  assumes "set ps \<subseteq> set ANOMALY_PATTERNS" and "unit_interval g" and "0 \<le> energyGenerated record"
  shows "0 \<le> energyGenerated (fst (fst (applyAnomalyPatterns g ps ds h record n)))"
  using assms(1)
proof (induction ps)
  case Nil
  then show ?case using assms(3) by simp
next
  case (Cons p ps)
  have "0 \<le> g n" using assms(2) by (simp add: unit_interval_def)
  then have "0 \<le> energyGenerated (fst (pattern_apply p g record n))"
    using Cons.prems assms(3) by (intro pattern_nonneg) simp_all
  then show ?case
    using Cons by (simp add: case_prod_beta)
qed

text \<open>
  Claim C6. With every draw in \<open>[0, 1)\<close>: for every hour and every capacity above 0 the curve
  model's energy is at least 0; every transform of the catalog, and so the scan of the
  catalog, takes a record of energy at least 0 to a record of energy at least 0; and the
  three multiplicative transforms (factors 0.3, 0.4, and 2.5 or 0.4 by the draw) yield a
  whole number at most one half away from the product.
\<close>

theorem energy_nonnegative:
  assumes "unit_interval g"
  shows "(0 < capacity \<longrightarrow> 0 \<le> fst (calculateEnergyGeneration g hour capacity n))
   \<and> (0 \<le> energyGenerated base \<longrightarrow>
        (\<forall>p \<in> set ANOMALY_PATTERNS. 0 \<le> energyGenerated (fst (pattern_apply p g base n)))
        \<and> 0 \<le> energyGenerated (fst (fst (applyAnomalyPatterns g ANOMALY_PATTERNS ds h base n))))
   \<and> energyGenerated (fst (pattern_apply SUDDEN_DROP g base n)) \<in> \<int>
   \<and> \<bar>energyGenerated (fst (pattern_apply SUDDEN_DROP g base n)) - energyGenerated base * 0.3\<bar>
        \<le> 1 / 2
   \<and> energyGenerated (fst (pattern_apply CAPACITY_FACTOR g base n)) \<in> \<int>
   \<and> \<bar>energyGenerated (fst (pattern_apply CAPACITY_FACTOR g base n)) - energyGenerated base * 0.4\<bar>
        \<le> 1 / 2
   \<and> energyGenerated (fst (pattern_apply IRREGULAR_PATTERN g base n)) \<in> \<int>
   \<and> \<bar>energyGenerated (fst (pattern_apply IRREGULAR_PATTERN g base n))
          - energyGenerated base * (if g n > 0.5 then 2.5 else 0.4)\<bar> \<le> 1 / 2"
proof -
  have r: "0 \<le> g n" "g n < 1"
    using assms by (simp_all add: unit_interval_def)
  have 1: "0 < capacity \<longrightarrow> 0 \<le> fst (calculateEnergyGeneration g hour capacity n)"
    using r by (simp add: curve_nonneg)
  have 2: "0 \<le> energyGenerated base \<longrightarrow>
        (\<forall>p \<in> set ANOMALY_PATTERNS. 0 \<le> energyGenerated (fst (pattern_apply p g base n)))
        \<and> 0 \<le> energyGenerated (fst (fst (applyAnomalyPatterns g ANOMALY_PATTERNS ds h base n)))"
    using r(1) assms by (simp add: pattern_nonneg scan_nonneg)
  have 3: "energyGenerated (fst (pattern_apply SUDDEN_DROP g base n)) \<in> \<int>"
    "\<bar>energyGenerated (fst (pattern_apply SUDDEN_DROP g base n)) - energyGenerated base * 0.3\<bar>
        \<le> 1 / 2"
    using Math_round_near [of "energyGenerated base * 0.3"]
    by (simp_all add: SUDDEN_DROP_def Math_round_Ints)
  have 4: "energyGenerated (fst (pattern_apply CAPACITY_FACTOR g base n)) \<in> \<int>"
    "\<bar>energyGenerated (fst (pattern_apply CAPACITY_FACTOR g base n)) - energyGenerated base * 0.4\<bar>
        \<le> 1 / 2"
    using Math_round_near [of "energyGenerated base * 0.4"]
    by (simp_all add: CAPACITY_FACTOR_def Math_round_Ints)
  have 5: "energyGenerated (fst (pattern_apply IRREGULAR_PATTERN g base n)) \<in> \<int>"
    "\<bar>energyGenerated (fst (pattern_apply IRREGULAR_PATTERN g base n))
          - energyGenerated base * (if g n > 0.5 then 2.5 else 0.4)\<bar> \<le> 1 / 2"
    using Math_round_near [of "energyGenerated base * 2.5"]
      Math_round_near [of "energyGenerated base * 0.4"]
    by (simp_all add: IRREGULAR_PATTERN_def Math_random_def Math_round_Ints)
  show ?thesis
    using 1 2 3 4 5 by blast
qed

theorem energy_nonnegative_witness:
  "unit_interval half \<and> (0 :: real) < 5000
   \<and> 0 \<le> fst (calculateEnergyGeneration half 12 5000 0)
   \<and> 0 \<le> energyGenerated base_1000
   \<and> 0 \<le> energyGenerated (fst (pattern_apply IRREGULAR_PATTERN half base_1000 0))
   \<and> 0 \<le> energyGenerated (fst (fst (applyAnomalyPatterns half ANOMALY_PATTERNS ''2025-12-08'' 12
                                      base_1000 0)))"
proof -
  have u: "unit_interval half"
    by (simp add: unit_interval_def half_def)
  have e: "0 \<le> energyGenerated base_1000"
    by (simp add: base_1000_def)
  have m: "IRREGULAR_PATTERN \<in> set ANOMALY_PATTERNS"
    by (simp add: ANOMALY_PATTERNS_def)
  show ?thesis
    using u e m
      energy_nonnegative [OF u, where capacity = 5000 and hour = 12 and n = 0 and base = base_1000
        and ds = "''2025-12-08''" and h = 12]
    by simp
qed

section \<open>What the catalog changes, and where it is applied\<close>

lemma pattern_fields:
  assumes "p \<in> set ANOMALY_PATTERNS"
  shows "fst (pattern_apply p g base n)
           = base\<lparr>energyGenerated := energyGenerated (fst (pattern_apply p g base n))\<rparr>"
proof -
  consider "p = ZERO_GENERATION" | "p = SUDDEN_DROP" | "p = CAPACITY_FACTOR"
    | "p = IRREGULAR_PATTERN" | "p = IRREGULAR_PATTERN_NIGHT"
    using assms by (auto simp: ANOMALY_PATTERNS_def)
  then show ?thesis
  proof cases
    case 1
    then show ?thesis by (simp add: ZERO_GENERATION_def)
  next
    case 2
    then show ?thesis by (simp add: SUDDEN_DROP_def)
  next
    case 3
    then show ?thesis by (simp add: CAPACITY_FACTOR_def)
  next
    case 4
    then show ?thesis by (simp add: IRREGULAR_PATTERN_def Math_random_def)
  next
    case 5
    then show ?thesis by (simp add: IRREGULAR_PATTERN_NIGHT_def Math_random_def)
  qed
qed

lemma scan_fields:
  assumes "set ps \<subseteq> set ANOMALY_PATTERNS"
  shows "fst (fst (applyAnomalyPatterns g ps ds h base n))
           = base\<lparr>energyGenerated :=
                    energyGenerated (fst (fst (applyAnomalyPatterns g ps ds h base n)))\<rparr>"
  using assms
proof (induction ps)
  case Nil
  then show ?case by simp
next
  case (Cons p ps)
  have "p \<in> set ANOMALY_PATTERNS"
    using Cons.prems by simp
  from pattern_fields [OF this, of g base n] Cons show ?case
    by (simp add: case_prod_beta)
qed

lemma slotRecord_peak:
  "peakPower (fst (slotRecord g tz u c date h n))
     = Some (if energyGenerated (fst (slotRecord g tz u c date h n)) > 0
             then energyGenerated (fst (slotRecord g tz u c date h n)) * 1.2 else 0)"
  by (simp add: slotRecord_def Let_def case_prod_beta)

lemma seedSlot_scan:
  "seedSlot g sn t n
     = applyAnomalyPatterns g ANOMALY_PATTERNS (toISODateString t) (getUTCHours t)
         (fst (seedBaseRecord g sn t n)) (snd (seedBaseRecord g sn t n))"
  by (simp add: seedSlot_def seedBaseRecord_def Let_def case_prod_beta)

lemma seedLoop_members:
  "r \<in> set (fst (fst (seedLoop g sn t e acc nr ar n))) \<Longrightarrow>
   r \<in> set acc \<or> (\<exists>t' k. t \<le> t' \<and> t' \<le> e \<and> r = fst (fst (seedSlot g sn t' k)))"
proof (induction g sn t e acc nr ar n rule: seedLoop.induct)
  case (1 g sn t e acc nr ar n)
  show ?case
  proof (cases "t \<le> e")
    case True
    obtain r' b n' where s: "seedSlot g sn t n = ((r', b), n')"
      by (metis prod.exhaust)
    have u: "seedLoop g sn t e acc nr ar n
               = seedLoop g sn (t + 2 * 60 * 60 * 1000) e (acc @ [r'])
                   (if b then nr else nr + 1) (if b then ar + 1 else ar) n'"
      using True s by (subst seedLoop.simps) simp
    have "r \<in> set (acc @ [r']) \<or>
          (\<exists>t' k. t + 2 * 60 * 60 * 1000 \<le> t' \<and> t' \<le> e \<and> r = fst (fst (seedSlot g sn t' k)))"
      using "1.IH" [OF True s [symmetric] refl] "1.prems" unfolding u by simp
    then consider "r \<in> set acc" | "r = r'"
      | t' k where "t + 2 * 60 * 60 * 1000 \<le> t'" "t' \<le> e" "r = fst (fst (seedSlot g sn t' k))"
      by auto
    then show ?thesis
    proof cases
      case 1
      then show ?thesis by simp
    next
      case 2
      then have "r = fst (fst (seedSlot g sn t n))" using s by simp
      with True show ?thesis by blast
    next
      case 3
      then have "t \<le> t'" by simp
      with 3 show ?thesis by blast
    qed
  next
    case False
    then have "seedLoop g sn t e acc nr ar n = ((acc, nr, ar), n)"
      by (subst seedLoop.simps) simp
    with "1.prems" show ?thesis by simp
  qed
qed

lemma zero_generation_window:
  "shouldApplyPattern ZERO_GENERATION ds h \<longleftrightarrow> ds = ''2025-12-01'' \<and> 10 \<le> h \<and> h < 14"
  by (auto simp: shouldApplyPattern_def ZERO_GENERATION_def)

lemma zero_generation_apply:
  "pattern_apply ZERO_GENERATION g base n = (base\<lparr>energyGenerated := 0\<rparr>, n)"
  by (simp add: ZERO_GENERATION_def)

lemma seedSlot_outage:
  assumes "toISODateString t = ''2025-12-01''" and "10 \<le> getUTCHours t" and "getUTCHours t < 14"
  shows "fst (seedSlot g sn t n) = ((fst (seedBaseRecord g sn t n))\<lparr>energyGenerated := 0\<rparr>, True)"
proof -
  have z: "shouldApplyPattern ZERO_GENERATION (toISODateString t) (getUTCHours t)"
    using assms by (simp add: zero_generation_window)
  show ?thesis
    unfolding seedSlot_scan ANOMALY_PATTERNS_def
    using z by (simp add: zero_generation_apply)
qed

lemma seedLoop_single:
  "fst (fst (seedLoop g sn t t [] 0 0 n)) = [fst (fst (seedSlot g sn t n))]"
proof -
  have stop: "seedLoop g sn (t + 7200000) t acc a b m = ((acc, a, b), m)" for acc a b m
    by (subst seedLoop.simps) simp
  show ?thesis
    by (subst seedLoop.simps) (simp add: stop case_prod_beta)
qed

text \<open>
  Claim C2, as amended. The scan of the catalog replaces \<open>energyGenerated\<close> and no other
  field of the record. In the seeding path every record pushed is the result of the scan
  of \<open>ANOMALY_PATTERNS\<close>, at the UTC date and the UTC hour of its timestamp, on the base
  record built for that timestamp: it is the base record with, at most, its energy
  replaced, and for a timestamp on 2025-12-01 between 10:00 and 14:00 UTC its energy is 0
  and it is flagged. The scheduler does not consult the catalog: every record of its batch
  carries the curve model's energy for its hour and the peak power derived from that
  energy, and the batch is stored as it was built.
\<close>

theorem catalog_replaces_energy_only:
  "fst (fst (applyAnomalyPatterns g ANOMALY_PATTERNS ds h base n))
     = base\<lparr>energyGenerated :=
              energyGenerated (fst (fst (applyAnomalyPatterns g ANOMALY_PATTERNS ds h base n)))\<rparr>
   \<and> seedSlot g sn t n
       = applyAnomalyPatterns g ANOMALY_PATTERNS (toISODateString t) (getUTCHours t)
           (fst (seedBaseRecord g sn t n)) (snd (seedBaseRecord g sn t n))
   \<and> fst (fst (seedSlot g sn t n))
       = (fst (seedBaseRecord g sn t n))
           \<lparr>energyGenerated := energyGenerated (fst (fst (seedSlot g sn t n)))\<rparr>
   \<and> (toISODateString t = ''2025-12-01'' \<and> 10 \<le> getUTCHours t \<and> getUTCHours t < 14 \<longrightarrow>
        fst (seedSlot g sn t n) = ((fst (seedBaseRecord g sn t n))\<lparr>energyGenerated := 0\<rparr>, True))
   \<and> (s \<in> set (fst (fst (seedLoop g sn startDate endDate [] 0 0 n))) \<longrightarrow>
        (\<exists>t' j. startDate \<le> t' \<and> t' \<le> endDate
           \<and> s = fst (fst (applyAnomalyPatterns g ANOMALY_PATTERNS (toISODateString t')
                             (getUTCHours t') (fst (seedBaseRecord g sn t' j))
                             (snd (seedBaseRecord g sn t' j))))))
   \<and> (r \<in> set (fst (recordsLoop g tz u c date 0 [] k)) \<longrightarrow>
        (\<exists>hr j. 0 \<le> hr \<and> hr < 24 \<and> timestamp r = setHours tz date hr
           \<and> energyGenerated r = fst (calculateEnergyGeneration g (of_int hr) c j))
        \<and> peakPower r = Some (if energyGenerated r > 0 then energyGenerated r * 1.2 else 0))
   \<and> (countDocuments (fst w) (unit_serialNumber u) date = 0 \<longrightarrow>
        fst (snd (generateRecordsForUnit g tz NoFault u date w))
          = fst w @ fst (recordsLoop g tz u (capacityOf u) date 0 [] (snd w)))"
proof (intro conjI impI)
  show "fst (fst (applyAnomalyPatterns g ANOMALY_PATTERNS ds h base n))
     = base\<lparr>energyGenerated :=
              energyGenerated (fst (fst (applyAnomalyPatterns g ANOMALY_PATTERNS ds h base n)))\<rparr>"
    by (rule scan_fields) simp
  show "seedSlot g sn t n
       = applyAnomalyPatterns g ANOMALY_PATTERNS (toISODateString t) (getUTCHours t)
           (fst (seedBaseRecord g sn t n)) (snd (seedBaseRecord g sn t n))"
    by (rule seedSlot_scan)
  show "fst (fst (seedSlot g sn t n))
       = (fst (seedBaseRecord g sn t n))
           \<lparr>energyGenerated := energyGenerated (fst (fst (seedSlot g sn t n)))\<rparr>"
    unfolding seedSlot_scan by (rule scan_fields) simp
next
  assume "toISODateString t = ''2025-12-01'' \<and> 10 \<le> getUTCHours t \<and> getUTCHours t < 14"
  then show "fst (seedSlot g sn t n)
               = ((fst (seedBaseRecord g sn t n))\<lparr>energyGenerated := 0\<rparr>, True)"
    by (simp add: seedSlot_outage)
next
  assume "s \<in> set (fst (fst (seedLoop g sn startDate endDate [] 0 0 n)))"
  then obtain t' j where "startDate \<le> t'" "t' \<le> endDate" "s = fst (fst (seedSlot g sn t' j))"
    using seedLoop_members [of s g sn startDate endDate "[]" 0 0 n] by auto
  then show "\<exists>t' j. startDate \<le> t' \<and> t' \<le> endDate
           \<and> s = fst (fst (applyAnomalyPatterns g ANOMALY_PATTERNS (toISODateString t')
                             (getUTCHours t') (fst (seedBaseRecord g sn t' j))
                             (snd (seedBaseRecord g sn t' j))))"
    unfolding seedSlot_scan by blast
next
  assume "r \<in> set (fst (recordsLoop g tz u c date 0 [] k))"
  then obtain hr j where hj: "0 \<le> hr" "hr < 24" "r = fst (slotRecord g tz u c date hr j)"
    using recordsLoop_members [of r g tz u c date 0 "[]" k] by auto
  show "\<exists>hr j. 0 \<le> hr \<and> hr < 24 \<and> timestamp r = setHours tz date hr
           \<and> energyGenerated r = fst (calculateEnergyGeneration g (of_int hr) c j)"
    using hj by (auto simp: slotRecord_fields)
  show "peakPower r = Some (if energyGenerated r > 0 then energyGenerated r * 1.2 else 0)"
    unfolding hj(3) by (rule slotRecord_peak)
next
  assume "countDocuments (fst w) (unit_serialNumber u) date = 0"
  then show "fst (snd (generateRecordsForUnit g tz NoFault u date w))
          = fst w @ fst (recordsLoop g tz u (capacityOf u) date 0 [] (snd w))"
    by (simp add: generate_new)
qed

theorem catalog_replaces_energy_only_witness:
  "toISODateString outage_slot = ''2025-12-01'' \<and> 10 \<le> getUTCHours outage_slot
   \<and> getUTCHours outage_slot < 14
   \<and> energyGenerated (fst (seedBaseRecord half ''SU-TEST-2024'' outage_slot 0)) = 225
   \<and> fst (seedSlot half ''SU-TEST-2024'' outage_slot 0)
       = ((fst (seedBaseRecord half ''SU-TEST-2024'' outage_slot 0))\<lparr>energyGenerated := 0\<rparr>, True)
   \<and> hd (fst (fst (seedLoop half ''SU-TEST-2024'' outage_slot outage_slot [] 0 0 0)))
       \<in> set (fst (fst (seedLoop half ''SU-TEST-2024'' outage_slot outage_slot [] 0 0 0)))
   \<and> energyGenerated
        (hd (fst (fst (seedLoop half ''SU-TEST-2024'' outage_slot outage_slot [] 0 0 0)))) = 0
   \<and> countDocuments (fst ([], 0)) (unit_serialNumber unit_A) dec_1st_2025 = 0
   \<and> persisted_dec_1st = fst (recordsLoop half 0 unit_A (capacityOf unit_A) dec_1st_2025 0 [] 0)
   \<and> hd persisted_dec_1st \<in> set persisted_dec_1st
   \<and> peakPower (hd persisted_dec_1st)
       = Some (if energyGenerated (hd persisted_dec_1st) > 0
               then energyGenerated (hd persisted_dec_1st) * 1.2 else 0)"
proof -
  note T = catalog_replaces_energy_only
             [where g = half and tz = 0 and u = unit_A and c = "capacityOf unit_A"
                and date = dec_1st_2025 and k = 0 and r = "hd persisted_dec_1st"
                and w = "([], 0)" and sn = "''SU-TEST-2024''" and t = outage_slot and n = 0
                and startDate = outage_slot and endDate = outage_slot
                and s = "hd (fst (fst (seedLoop half ''SU-TEST-2024'' outage_slot outage_slot
                                        [] 0 0 0)))"]
  have d: "toISODateString outage_slot = ''2025-12-01''" "10 \<le> getUTCHours outage_slot"
    "getUTCHours outage_slot < 14"
    by code_simp+
  have e: "energyGenerated (fst (seedBaseRecord half ''SU-TEST-2024'' outage_slot 0)) = 225"
    by code_simp
  have o: "fst (seedSlot half ''SU-TEST-2024'' outage_slot 0)
       = ((fst (seedBaseRecord half ''SU-TEST-2024'' outage_slot 0))\<lparr>energyGenerated := 0\<rparr>, True)"
    using T d by blast
  have l: "fst (fst (seedLoop half ''SU-TEST-2024'' outage_slot outage_slot [] 0 0 0))
             = [fst (fst (seedSlot half ''SU-TEST-2024'' outage_slot 0))]"
    by (rule seedLoop_single)
  have m: "hd (fst (fst (seedLoop half ''SU-TEST-2024'' outage_slot outage_slot [] 0 0 0)))
       \<in> set (fst (fst (seedLoop half ''SU-TEST-2024'' outage_slot outage_slot [] 0 0 0)))"
    unfolding l by simp
  have z: "energyGenerated
        (hd (fst (fst (seedLoop half ''SU-TEST-2024'' outage_slot outage_slot [] 0 0 0)))) = 0"
    unfolding l using o by simp
  have c0: "countDocuments (fst ([], 0)) (unit_serialNumber unit_A) dec_1st_2025 = 0"
    by (simp add: countDocuments_def)
  have p: "persisted_dec_1st = fst (recordsLoop half 0 unit_A (capacityOf unit_A) dec_1st_2025 0 [] 0)"
    unfolding persisted_dec_1st_def using T c0 by simp
  have "length persisted_dec_1st = 12"
    unfolding p by (rule recordsLoop_length)
  then have hm: "hd persisted_dec_1st \<in> set persisted_dec_1st"
    by (intro hd_in_set) auto
  have pk: "peakPower (hd persisted_dec_1st)
       = Some (if energyGenerated (hd persisted_dec_1st) > 0
               then energyGenerated (hd persisted_dec_1st) * 1.2 else 0)"
    using T hm unfolding p by blast
  show ?thesis
    using d e o m z c0 p hm pk by blast
qed

text \<open>
  The claim as written fails for the scheduler: the record it stores for 2025-12-01,
  10:00 UTC has energy 7000/3, while the scan of the catalog for that date and hour
  (rule \<open>ZERO_GENERATION\<close>) gives the same record energy 0.
\<close>

theorem scheduler_skips_catalog_counterexample:
  "toISODateString (timestamp (persisted_dec_1st ! 5)) = ''2025-12-01''
   \<and> getUTCHours (timestamp (persisted_dec_1st ! 5)) = 10
   \<and> energyGenerated (persisted_dec_1st ! 5) = 7000 / 3
   \<and> energyGenerated (fst (fst (applyAnomalyPatterns half ANOMALY_PATTERNS
        (toISODateString (timestamp (persisted_dec_1st ! 5)))
        (getUTCHours (timestamp (persisted_dec_1st ! 5))) (persisted_dec_1st ! 5) 0))) = 0"
  by code_simp

end
